theory Spec2Isabelle
  imports Complex_Main "HOL-Library.Sublist"
begin

section \<open>Strings\<close>

text \<open>
  Python strings are modelled as \<open>string\<close>, one \<open>char\<close> per character.
  \<open>str.lower\<close> maps the letters \<open>A\<close> to \<open>Z\<close> to \<open>a\<close> to \<open>z\<close> and leaves every other
  character as it is; \<open>str.startswith\<close> with a tuple holds when one member of the tuple is
  a prefix; \<open>str.endswith\<close>, \<open>str.rfind\<close> and the slice \<open>s[:n]\<close> are written out below.
\<close>

definition lower_char :: "char \<Rightarrow> char" where
  "lower_char c =
     (case map_of (zip ''ABCDEFGHIJKLMNOPQRSTUVWXYZ'' ''abcdefghijklmnopqrstuvwxyz'') c of
        None \<Rightarrow> c
      | Some l \<Rightarrow> l)"

definition lower :: "string \<Rightarrow> string" where
  "lower s = map lower_char s"

definition startswith :: "string \<Rightarrow> string list \<Rightarrow> bool" where
  "startswith s ps = list_ex (\<lambda>p. take (length p) s = p) ps"

definition endswith :: "string \<Rightarrow> string \<Rightarrow> bool" where
  "endswith s suf = (length suf \<le> length s \<and> drop (length s - length suf) s = suf)"

text \<open>
  \<open>s.rfind(c)\<close> for a single character: the highest index at which \<open>c\<close> stands, or \<open>-1\<close>.
\<close>

fun rfind :: "string \<Rightarrow> char \<Rightarrow> int" where
  "rfind [] c = -1"
| "rfind (x # xs) c =
     (let r = rfind xs c in
      if r \<noteq> -1 then r + 1 else if x = c then 0 else -1)"

section \<open>The integration toggle\<close>

type_synonym environ = "string \<rightharpoonup> string"

datatype integration = PytestIntegration bool | OtherIntegration string

fun always_report :: "integration \<Rightarrow> bool" where
  "always_report (PytestIntegration b) = b"
| "always_report (OtherIntegration i) = False"

text \<open>
  \<open>PytestIntegration.__init__\<close>: the argument is \<open>None\<close> or a truth value;
  \<open>os.environ.get(k, "")\<close> reads an absent variable as the empty string.
\<close>

definition PytestIntegration_init :: "environ \<Rightarrow> bool option \<Rightarrow> integration" where
  "PytestIntegration_init environ arg =
     (case arg of
        None \<Rightarrow>
          PytestIntegration
            (lower (case environ ''PYTEST_SENTRY_ALWAYS_REPORT'' of None \<Rightarrow> '''' | Some s \<Rightarrow> s)
               \<in> set [''1'', ''true'', ''yes''])
      | Some b \<Rightarrow> PytestIntegration b)"

section \<open>Exceptions\<close>

datatype exn =
    RuntimeError string
  | IndexError
  | KeyError string
  | AttributeError
  | TypeError
  | BadDsn
  | Exception string

section \<open>Events and the event processor\<close>

text \<open>
  An event is a dictionary. The keys the processor tests with \<open>in\<close> (\<open>exception\<close>,
  \<open>stacktrace\<close>) are optional fields. The keys it indexes (\<open>values\<close>, \<open>frames\<close>, \<open>module\<close>)
  are optional too: indexing an absent key raises \<open>KeyError\<close>. The value under \<open>module\<close> is
  a string or \<open>None\<close>, as the SDK writes it for a frame whose globals have no name;
  \<open>None.startswith\<close> raises \<open>AttributeError\<close>. So \<open>module\<close> is \<open>None\<close> for a frame without
  the key, \<open>Some None\<close> for the value \<open>None\<close> and \<open>Some (Some m)\<close> for the string \<open>m\<close>. All
  remaining keys of a dictionary are kept in its \<open>_rest\<close> field. \<open>in_app\<close> is \<open>None\<close> while
  the key is not set. Frames are taken as distinct objects.
\<close>

record frame =
  module :: "string option option"
  in_app :: "bool option"
  frame_rest :: "(string \<times> string) list"

record stacktrace =
  frames :: "frame list option"
  stacktrace_rest :: "(string \<times> string) list"

record exception_entry =
  exc_stacktrace :: "stacktrace option"
  exc_rest :: "(string \<times> string) list"

record exception_info =
  exc_values :: "exception_entry list option"
  exception_rest :: "(string \<times> string) list"

record event =
  exception :: "exception_info option"
  ev_stacktrace :: "stacktrace option"
  event_rest :: "(string \<times> string) list"

text \<open>
  The processor assigns in place. Each function below gives the exception raised, if any,
  and the object after the call: when a frame raises, the frames before it keep their
  assignment and the frames from it on are left as they were.

  \<open>_process_stacktrace\<close>: the loop over \<open>stacktrace["frames"]\<close>.
\<close>

fun process_frames :: "frame list \<Rightarrow> exn option \<times> frame list" where
  "process_frames [] = (None, [])"
| "process_frames (f # fs) =
     (case module f of
        None \<Rightarrow> (Some (KeyError ''module''), f # fs)
      | Some None \<Rightarrow> (Some AttributeError, f # fs)
      | Some (Some m) \<Rightarrow>
          (case process_frames fs of
             (r, fs') \<Rightarrow>
               (r, f\<lparr>in_app := Some (\<not> startswith m [''_pytest.'', ''pytest.'', ''pluggy.''])\<rparr>
                     # fs')))"

definition process_stacktrace :: "stacktrace \<Rightarrow> exn option \<times> stacktrace" where
  "process_stacktrace st =
     (case frames st of
        None \<Rightarrow> (Some (KeyError ''frames''), st)
      | Some fs \<Rightarrow> (case process_frames fs of (r, fs') \<Rightarrow> (r, st\<lparr>frames := Some fs'\<rparr>)))"

text \<open>The loop over \<open>event["exception"]["values"]\<close>.\<close>

fun process_exceptions :: "exception_entry list \<Rightarrow> exn option \<times> exception_entry list" where
  "process_exceptions [] = (None, [])"
| "process_exceptions (x # xs) =
     (case exc_stacktrace x of
        None \<Rightarrow> (case process_exceptions xs of (r, xs') \<Rightarrow> (r, x # xs'))
      | Some st \<Rightarrow>
          (case process_stacktrace st of
             (Some e, st') \<Rightarrow> (Some e, x\<lparr>exc_stacktrace := Some st'\<rparr> # xs)
           | (None, st') \<Rightarrow>
               (case process_exceptions xs of
                  (r, xs') \<Rightarrow> (r, x\<lparr>exc_stacktrace := Some st'\<rparr> # xs'))))"

text \<open>
  \<open>_process_event\<close>. The first component is what the call does: it raises, or it returns
  a value, which for an event processor is an event or \<open>None\<close> (\<open>None\<close> drops the event).
  The second component is the event object after the call; the value returned is that
  object.
\<close>

definition process_exception_key :: "event \<Rightarrow> exn option \<times> event" where
  "process_exception_key ev =
     (case exception ev of
        None \<Rightarrow> (None, ev)
      | Some x \<Rightarrow>
          (case exc_values x of
             None \<Rightarrow> (Some (KeyError ''values''), ev)
           | Some xs \<Rightarrow>
               (case process_exceptions xs of
                  (r, xs') \<Rightarrow> (r, ev\<lparr>exception := Some (x\<lparr>exc_values := Some xs'\<rparr>)\<rparr>))))"

definition process_stacktrace_key :: "event \<Rightarrow> exn option \<times> event" where
  "process_stacktrace_key ev =
     (case ev_stacktrace ev of
        None \<Rightarrow> (None, ev)
      | Some st \<Rightarrow>
          (case process_stacktrace st of (r, st') \<Rightarrow> (r, ev\<lparr>ev_stacktrace := Some st'\<rparr>)))"

definition process_event :: "event \<Rightarrow> 'hint \<Rightarrow> (exn + event option) \<times> event" where
  "process_event ev hint =
     (case process_exception_key ev of
        (Some e, ev1) \<Rightarrow> (Inl e, ev1)
      | (None, ev1) \<Rightarrow>
          (case process_stacktrace_key ev1 of
             (Some e, ev2) \<Rightarrow> (Inl e, ev2)
           | (None, ev2) \<Rightarrow> (Inr (Some ev2), ev2)))"

text \<open>The frames of an event: those of each exception entry, then those at top level.\<close>

definition stacktrace_frames :: "stacktrace option \<Rightarrow> frame list" where
  "stacktrace_frames s =
     (case s of None \<Rightarrow> [] | Some st \<Rightarrow> (case frames st of None \<Rightarrow> [] | Some fs \<Rightarrow> fs))"

definition exception_frames :: "exception_info option \<Rightarrow> frame list" where
  "exception_frames x =
     (case x of
        None \<Rightarrow> []
      | Some i \<Rightarrow>
          (case exc_values i of
             None \<Rightarrow> []
           | Some xs \<Rightarrow> concat (map (\<lambda>e. stacktrace_frames (exc_stacktrace e)) xs)))"

definition event_frames :: "event \<Rightarrow> frame list" where
  "event_frames ev = exception_frames (exception ev) @ stacktrace_frames (ev_stacktrace ev)"

text \<open>
  An event in which every indexed key is present and every module is a string.
\<close>

definition stacktrace_keys :: "stacktrace option \<Rightarrow> bool" where
  "stacktrace_keys s = (case s of None \<Rightarrow> True | Some st \<Rightarrow> frames st \<noteq> None)"

definition event_keys :: "event \<Rightarrow> bool" where
  "event_keys ev =
     ((case exception ev of
         None \<Rightarrow> True
       | Some i \<Rightarrow>
           (case exc_values i of
              None \<Rightarrow> False
            | Some xs \<Rightarrow> list_all (\<lambda>e. stacktrace_keys (exc_stacktrace e)) xs))
      \<and> stacktrace_keys (ev_stacktrace ev))"

definition has_module_name :: "frame \<Rightarrow> bool" where
  "has_module_name f = (case module f of Some (Some m) \<Rightarrow> True | _ \<Rightarrow> False)"

definition module_names :: "event \<Rightarrow> bool" where
  "module_names ev = (event_keys ev \<and> list_all has_module_name (event_frames ev))"

text \<open>The assignment to a frame with a module name, and to every frame of an event.\<close>

definition marked :: "frame \<Rightarrow> frame" where
  "marked f =
     (case module f of
        Some (Some m) \<Rightarrow>
          f\<lparr>in_app := Some (\<not> startswith m [''_pytest.'', ''pytest.'', ''pluggy.''])\<rparr>
      | _ \<Rightarrow> f)"

definition marked_stacktrace :: "stacktrace \<Rightarrow> stacktrace" where
  "marked_stacktrace st = st\<lparr>frames := map_option (map marked) (frames st)\<rparr>"

definition marked_event :: "event \<Rightarrow> event" where
  "marked_event ev =
     ev\<lparr>exception :=
          map_option
            (\<lambda>x. x\<lparr>exc_values :=
                     map_option
                       (map (\<lambda>e. e\<lparr>exc_stacktrace :=
                                      map_option marked_stacktrace (exc_stacktrace e)\<rparr>))
                       (exc_values x)\<rparr>)
            (exception ev),
        ev_stacktrace := map_option marked_stacktrace (ev_stacktrace ev)\<rparr>"

text \<open>An event with the key \<open>in_app\<close> removed from every frame.\<close>

definition clear_frames :: "stacktrace \<Rightarrow> stacktrace" where
  "clear_frames st = st\<lparr>frames := map_option (map (\<lambda>f. f\<lparr>in_app := None\<rparr>)) (frames st)\<rparr>"

definition clear_in_app :: "event \<Rightarrow> event" where
  "clear_in_app ev =
     ev\<lparr>exception :=
          map_option
            (\<lambda>x. x\<lparr>exc_values :=
                     map_option
                       (map (\<lambda>e. e\<lparr>exc_stacktrace := map_option clear_frames (exc_stacktrace e)\<rparr>))
                       (exc_values x)\<rparr>)
            (exception ev),
        ev_stacktrace := map_option clear_frames (ev_stacktrace ev)\<rparr>"

section \<open>Reporting destinations and contexts\<close>

text \<open>
  The keyword arguments of a client follow the options the constructor of the repository
  touches (\<open>dsn\<close>, \<open>traces_sample_rate\<close>, \<open>_experiments\<close>, \<open>environment\<close>,
  \<open>integrations\<close>), each \<open>None\<close> when the key is not given, and keep every other option in
  \<open>kw_rest\<close>. \<open>dsn\<close>, \<open>traces_sample_rate\<close> and \<open>environment\<close> may be given as
  \<open>None\<close>, hence the nested option; \<open>_experiments\<close> is a dictionary and \<open>integrations\<close>
  a list whenever given.
\<close>

record kwargs =
  kw_dsn :: "string option option"
  kw_traces_sample_rate :: "rat option option"
  kw_experiments :: "(string \<times> bool) list option"
  kw_environment :: "string option option"
  kw_integrations :: "integration list option"
  kw_rest :: "(string \<times> string) list"

definition no_kwargs :: kwargs where
  "no_kwargs =
     \<lparr>kw_dsn = None, kw_traces_sample_rate = None, kw_experiments = None,
      kw_environment = None, kw_integrations = None, kw_rest = []\<rparr>"

text \<open>\<open>dict.setdefault\<close> on an association list.\<close>

definition setdefault :: "'k \<Rightarrow> 'v \<Rightarrow> ('k \<times> 'v) list \<Rightarrow> ('k \<times> 'v) list" where
  "setdefault k v d = (case map_of d k of None \<Rightarrow> d @ [(k, v)] | Some u \<Rightarrow> d)"

text \<open>
  The client class of the SDK, \<open>sentry_sdk.Client\<close>, is not part of the repository. The
  model keeps of a client the endpoint it reports to and the keyword arguments it was built
  from. Of the SDK's constructor it keeps what the arguments passed by the repository
  decide, with the SDK's table of options and its parser of endpoints as parameters:
  \<^item> an option the table does not know raises \<open>TypeError\<close>;
  \<^item> the endpoint is the keyword \<open>dsn\<close> unless that is absent or \<open>None\<close>, then the
    positional argument, then the environment variable \<open>SENTRY_DSN\<close>;
  \<^item> an endpoint that is not empty and that the parser refuses raises \<open>BadDsn\<close>.
\<close>

record sdk_tables =
  known_option :: "string \<Rightarrow> bool"
  valid_dsn :: "string \<Rightarrow> bool"

record client =
  client_dsn :: "string option"
  client_options :: kwargs

definition options_dsn :: "environ \<Rightarrow> string option \<Rightarrow> kwargs \<Rightarrow> string option" where
  "options_dsn environ arg kw =
     (case (case kw_dsn kw of Some (Some d) \<Rightarrow> Some d | _ \<Rightarrow> arg) of
        None \<Rightarrow> environ ''SENTRY_DSN''
      | Some d \<Rightarrow> Some d)"

definition sentry_sdk_Client_init :: "sdk_tables \<Rightarrow> environ \<Rightarrow> string option \<Rightarrow> kwargs \<Rightarrow> exn + client" where
  "sentry_sdk_Client_init s environ arg kw =
     (if list_ex (\<lambda>kv. \<not> known_option s (fst kv)) (kw_rest kw) then Inl TypeError
      else
        (case options_dsn environ arg kw of
           None \<Rightarrow> Inr \<lparr>client_dsn = None, client_options = kw\<rparr>
         | Some d \<Rightarrow>
             if d \<noteq> [] \<and> \<not> valid_dsn s d then Inl BadDsn
             else Inr \<lparr>client_dsn = Some d, client_options = kw\<rparr>))"

text \<open>
  \<open>Client.__init__\<close> of the repository. \<open>passed_kwargs\<close> is the dictionary \<open>kwargs\<close> when
  the constructor of the SDK is called. \<open>**kwargs\<close> copies the caller's dictionary but not
  the values in it, so \<open>setdefault\<close> on a given \<open>_experiments\<close> and \<open>append\<close> on a given
  \<open>integrations\<close> change the caller's objects: \<open>callers_kwargs\<close> is the caller's dictionary
  after the call, whether the constructor of the SDK raises or not. The result is what the
  call does and the caller's dictionary afterwards. The positional arguments are none or
  one string.
\<close>

definition passed_kwargs :: "environ \<Rightarrow> kwargs \<Rightarrow> kwargs" where
  "passed_kwargs environ kw =
     kw\<lparr>kw_dsn :=
          (case kw_dsn kw of None \<Rightarrow> Some (environ ''PYTEST_SENTRY_DSN'') | Some d \<Rightarrow> Some d),
        kw_traces_sample_rate :=
          (case kw_traces_sample_rate kw of None \<Rightarrow> Some (Some 1) | Some r \<Rightarrow> Some r),
        kw_experiments :=
          Some (setdefault ''auto_enabling_integrations'' True
                  (case kw_experiments kw of None \<Rightarrow> [] | Some d \<Rightarrow> d)),
        kw_environment :=
          (case kw_environment kw of None \<Rightarrow> Some (Some ''test'') | Some e \<Rightarrow> Some e),
        kw_integrations :=
          Some ((case kw_integrations kw of None \<Rightarrow> [] | Some l \<Rightarrow> l)
                  @ [PytestIntegration_init environ None])\<rparr>"

definition callers_kwargs :: "environ \<Rightarrow> kwargs \<Rightarrow> kwargs" where
  "callers_kwargs environ kw =
     kw\<lparr>kw_experiments :=
          map_option (setdefault ''auto_enabling_integrations'' True) (kw_experiments kw),
        kw_integrations :=
          map_option (\<lambda>l. l @ [PytestIntegration_init environ None]) (kw_integrations kw)\<rparr>"

definition Client_init :: "sdk_tables \<Rightarrow> environ \<Rightarrow> string option \<Rightarrow> kwargs \<Rightarrow> (exn + client) \<times> kwargs" where
  "Client_init s environ arg kw =
     (sentry_sdk_Client_init s environ arg (passed_kwargs environ kw), callers_kwargs environ kw)"

datatype hub = Hub "client option"

text \<open>\<open>Hub(Client(...))\<close>: the context around the client, or the exception of the constructor.\<close>

definition Hub_of :: "exn + client \<Rightarrow> exn + hub" where
  "Hub_of r = (case r of Inl e \<Rightarrow> Inl e | Inr c \<Rightarrow> Inr (Hub (Some c)))"

text \<open>
  The module is imported once. The statement \<open>DEFAULT_HUB = Hub(Client())\<close> runs then, in
  the environment of that moment, and the import fails when it raises. A process is the SDK,
  the value of \<open>DEFAULT_HUB\<close> since the import, and the environment as it is when a hook
  runs.
\<close>

definition DEFAULT_HUB_at_import :: "sdk_tables \<Rightarrow> environ \<Rightarrow> exn + hub" where
  "DEFAULT_HUB_at_import s environ = Hub_of (fst (Client_init s environ None no_kwargs))"

record process =
  sentry_sdk :: sdk_tables
  DEFAULT_HUB :: hub
  os_environ :: environ

text \<open>
  Modelled from the spec: \<open>Hub.get_integration\<close> of the SDK, which is not part of the
  repository. The toggle is found in the integration list of the context's destination
  (section 3: one instance embedded in each destination's integration list); a context with
  no destination has none (section 4.1). Where a list holds several toggles the spec does not
  say which is found; the last is taken here, and no theorem below depends on the choice.
\<close>

definition is_pytest :: "integration \<Rightarrow> bool" where
  "is_pytest i = (case i of PytestIntegration b \<Rightarrow> True | OtherIntegration n \<Rightarrow> False)"

definition get_integration :: "hub \<Rightarrow> integration option" where
  "get_integration h =
     (case h of
        Hub None \<Rightarrow> None
      | Hub (Some c) \<Rightarrow>
          (case kw_integrations (client_options c) of
             None \<Rightarrow> None
           | Some l \<Rightarrow> find is_pytest (rev l)))"

section \<open>The marker resolver\<close>

text \<open>
  The values a marker argument can have. A callable carries \<open>repr(type(v))\<close> of the
  callable and the value its call without arguments returns, built anew by each call;
  \<open>VOther\<close> is an object of any other type, with \<open>repr(type(v))\<close>. \<open>VClient\<close> is an instance
  of the \<open>Client\<close> class of the repository, against which \<open>isinstance\<close> tests; an instance of
  the client class of the SDK itself is a value of another type.
\<close>

datatype marker_value =
    VNone
  | VStr string
  | VDict kwargs
  | VClient client
  | VHub hub
  | VCallable string marker_value
  | VOther string

definition type_repr :: "marker_value \<Rightarrow> string" where
  "type_repr v =
     (case v of
        VNone \<Rightarrow> ''<class 'NoneType'>''
      | VStr s \<Rightarrow> ''<class 'str'>''
      | VDict d \<Rightarrow> ''<class 'dict'>''
      | VClient c \<Rightarrow> ''<class 'pytest_sentry.Client'>''
      | VHub h \<Rightarrow> ''<class 'sentry_sdk.hub.Hub'>''
      | VCallable t r \<Rightarrow> t
      | VOther t \<Rightarrow> t)"

text \<open>
  \<open>_resolve_hub_marker_value\<close> from the value \<open>marker_value\<close> on: what the call does, and
  the object \<open>v0\<close> afterwards. Only a dictionary given directly is changed, by
  \<open>Client(**marker_value)\<close>; the dictionary a callable returns is changed too, but it is
  not the marker's.
\<close>

definition resolve_value :: "process \<Rightarrow> marker_value \<Rightarrow> (exn + hub) \<times> marker_value" where
  "resolve_value pr v0 =
     (let v = (case v0 of VCallable t r \<Rightarrow> r | _ \<Rightarrow> v0) in
      case v of
        VNone \<Rightarrow> (Inr (Hub None), v0)
      | VStr s \<Rightarrow>
          (Hub_of (fst (Client_init (sentry_sdk pr) (os_environ pr) (Some s) no_kwargs)), v0)
      | VDict d \<Rightarrow>
          (case Client_init (sentry_sdk pr) (os_environ pr) None d of
             (r, d') \<Rightarrow> (Hub_of r, (case v0 of VCallable t r \<Rightarrow> v0 | _ \<Rightarrow> VDict d')))
      | VClient c \<Rightarrow> (Inr (Hub (Some c)), v0)
      | VHub h \<Rightarrow> (Inr h, v0)
      | _ \<Rightarrow>
          (Inl (RuntimeError
                 (''The `sentry_client` value must be a client, hub or string, not ''
                    @ type_repr v)),
           v0))"

text \<open>
  \<open>_resolve_hub_marker_value\<close>. Its argument is the result of
  \<open>item.get_closest_marker("sentry_client")\<close>: \<open>None\<close>, or a mark with its positional
  arguments; \<open>args[0]\<close> of a mark without arguments raises \<open>IndexError\<close>. The second
  component is the arguments of the mark after the call.
\<close>

definition resolve_hub_marker_value ::
    "process \<Rightarrow> marker_value list option \<Rightarrow> (exn + hub) \<times> marker_value list option" where
  "resolve_hub_marker_value pr marker =
     (case marker of
        None \<Rightarrow> (fst (resolve_value pr (VHub (DEFAULT_HUB pr))), None)
      | Some [] \<Rightarrow> (Inl IndexError, Some [])
      | Some (v # vs) \<Rightarrow> (case resolve_value pr v of (r, v') \<Rightarrow> (r, Some (v' # vs))))"

section \<open>The state the hooks act on\<close>

record excinfo =
  ei_type :: string
  ei_value :: string
  ei_tb :: string

record call_info =
  call_when :: string
  call_excinfo :: "excinfo option"

text \<open>
  An item has its \<open>nodeid\<close> and, when it is marked, the mark \<open>sentry_client\<close>: the place
  in the store where the arguments of the mark stand. Items under one mark (a mark on a
  class or module) share the place.
\<close>

record item =
  nodeid :: string
  sentry_client :: "nat option"

text \<open>The calls into the SDK that the hooks make.\<close>

datatype sdk_call =
    Push_scope
  | Add_event_processor
  | Pop_scope
  | Set_tag string string
  | Start_transaction string string
  | Finish_transaction
  | Capture_exception "string \<times> string \<times> string"

text \<open>
  \<open>current\<close> is \<open>Hub.current\<close>, \<open>old_hubs\<close> the contexts saved by the \<open>with hub\<close> blocks
  that are open, innermost first. \<open>calls\<close> lists the calls into the SDK in order, each
  with the context that was current when it was made. \<open>pytest_sentry_exc_chain\<close> is the
  attribute of that name on each item, by \<open>nodeid\<close> (which names one item); \<open>None\<close> while
  it is not set. \<open>marks\<close> is the store of the arguments of the marks.
\<close>

record world =
  current :: hub
  old_hubs :: "hub list"
  calls :: "(hub \<times> sdk_call) list"
  pytest_sentry_exc_chain :: "string \<Rightarrow> excinfo list option"
  marks :: "nat \<Rightarrow> marker_value list"

text \<open>
  \<open>item.get_closest_marker("sentry_client")\<close>, and the store after the resolver has run on
  the mark.
\<close>

definition get_closest_marker :: "world \<Rightarrow> item \<Rightarrow> marker_value list option" where
  "get_closest_marker w i = map_option (marks w) (sentry_client i)"

definition marker_after :: "item \<Rightarrow> marker_value list option \<Rightarrow> world \<Rightarrow> world" where
  "marker_after i m w =
     (case sentry_client i of
        None \<Rightarrow> w
      | Some a \<Rightarrow> (case m of None \<Rightarrow> w | Some args \<Rightarrow> w\<lparr>marks := (marks w)(a := args)\<rparr>))"

text \<open>
  Modelled from the spec: entering and leaving a context (\<open>with hub\<close>), which the SDK
  implements. Section 5: entering pushes the context and makes it current, leaving pops it
  and restores the enclosing one. Leaving with nothing saved does not occur below, where
  every exit follows its enter; it is written as no change.
\<close>

definition hub_enter :: "hub \<Rightarrow> world \<Rightarrow> world" where
  "hub_enter h w = w\<lparr>current := h, old_hubs := current w # old_hubs w\<rparr>"

definition hub_exit :: "world \<Rightarrow> world" where
  "hub_exit w =
     (case old_hubs w of
        [] \<Rightarrow> w
      | h # hs \<Rightarrow> w\<lparr>current := h, old_hubs := hs\<rparr>)"

definition sdk :: "sdk_call \<Rightarrow> world \<Rightarrow> world" where
  "sdk c w = w\<lparr>calls := calls w @ [(current w, c)]\<rparr>"

section \<open>The wrapped hooks\<close>

text \<open>
  The result of a hook as the plugin manager hands it to a wrapper: an exception or a
  value. For \<open>pytest_runtest_makereport\<close> the value is the test report, of which the wrapper
  reads \<open>outcome\<close>.
\<close>

datatype hook_result = TestReport string | NoResult

datatype outcome = Raised exn | Returned hook_result

datatype hookcall =
    Pytest_runtest_protocol item
  | Pytest_runtest_call item
  | Pytest_fixture_setup string item
  | Pytest_runtest_makereport item call_info

text \<open>
  The \<open>itemgetter\<close> of each hook; for \<open>pytest_fixture_setup\<close> the second component is
  \<open>request._pyfuncitem\<close> and the first \<open>fixturedef.argname\<close>.
\<close>

fun itemgetter :: "hookcall \<Rightarrow> item" where
  "itemgetter (Pytest_runtest_protocol i) = i"
| "itemgetter (Pytest_runtest_call i) = i"
| "itemgetter (Pytest_fixture_setup argname i) = i"
| "itemgetter (Pytest_runtest_makereport i c) = i"

text \<open>The name of the transaction of \<open>pytest_runtest_call\<close>.\<close>

definition runtest_call_name :: "string \<Rightarrow> string" where
  "runtest_call_name name =
     (if endswith name '']'' then
        (let params_start = rfind name (CHR ''['') in
         if params_start \<noteq> -1 then take (nat params_start) name else name)
      else name)"

definition format_op_name :: "string \<Rightarrow> string \<Rightarrow> string" where
  "format_op_name op name = op @ '' '' @ name"

text \<open>
  Every wrapped hook is a generator that yields once, as \<open>hookwrapper\<close> assumes.
  \<open>wrapped_next\<close> runs it from the start to its \<open>yield\<close>, \<open>wrapped_send\<close> from the
  \<open>yield\<close> to its end; the first component of the result is the exception the part
  raises, if any. The \<open>with\<close> blocks of the hooks (a pushed scope, a transaction) are
  entered before the \<open>yield\<close> and left after it.
\<close>

fun wrapped_next :: "hookcall \<Rightarrow> world \<Rightarrow> exn option \<times> world" where
  "wrapped_next (Pytest_runtest_protocol i) w =
     (None, sdk Add_event_processor (sdk Push_scope w))"
| "wrapped_next (Pytest_runtest_call i) w =
     (None, sdk (Start_transaction ''pytest.runtest.call''
                  (format_op_name ''pytest.runtest.call'' (runtest_call_name (nodeid i)))) w)"
| "wrapped_next (Pytest_fixture_setup argname i) w =
     (None, sdk (Start_transaction ''pytest.fixture.setup''
                  (format_op_name ''pytest.fixture.setup'' argname)) w)"
| "wrapped_next (Pytest_runtest_makereport i c) w =
     (None, sdk (Set_tag ''pytest.result'' ''pending'') w)"

text \<open>\<open>getattr(item, "pytest_sentry_exc_chain", [])\<close>.\<close>

definition getattr_exc_chain :: "world \<Rightarrow> item \<Rightarrow> excinfo list" where
  "getattr_exc_chain w i =
     (case pytest_sentry_exc_chain w (nodeid i) of None \<Rightarrow> [] | Some ch \<Rightarrow> ch)"

text \<open>
  The loop over the chain: \<open>capture_exception((exc_info.type, exc_info.value, exc_info.tb))\<close>
  for each entry, in order.
\<close>

definition exc_tuple :: "excinfo \<Rightarrow> string \<times> string \<times> string" where
  "exc_tuple e = (ei_type e, ei_value e, ei_tb e)"

definition capture_all :: "excinfo list \<Rightarrow> world \<Rightarrow> world" where
  "capture_all chain w = foldl (\<lambda>w' e. sdk (Capture_exception (exc_tuple e)) w') w chain"

text \<open>
  The part of \<open>pytest_runtest_makereport\<close> after \<open>report = yield\<close>.
  \<open>report.get_result()\<close> raises what the report hooks raised; \<open>outcome\<close> of a result that
  is no report and \<open>always_report\<close> of no integration raise \<open>AttributeError\<close>.
\<close>

definition makereport_send :: "item \<Rightarrow> call_info \<Rightarrow> outcome \<Rightarrow> world \<Rightarrow> exn option \<times> world" where
  "makereport_send i c report w =
     (case report of
        Raised e \<Rightarrow> (Some e, w)
      | Returned NoResult \<Rightarrow> (Some AttributeError, w)
      | Returned (TestReport oc) \<Rightarrow>
          (let w1 = sdk (Set_tag ''pytest.result'' oc) w in
           if call_when c = ''call'' then
             (let chain0 = getattr_exc_chain w1 i;
                  chain = (case call_excinfo c of None \<Rightarrow> chain0 | Some e \<Rightarrow> chain0 @ [e]);
                  w2 = (case call_excinfo c of
                          None \<Rightarrow> w1
                        | Some e \<Rightarrow>
                            w1\<lparr>pytest_sentry_exc_chain :=
                                 (pytest_sentry_exc_chain w1)(nodeid i \<mapsto> chain)\<rparr>);
                  integration = get_integration (current w2)
              in if chain \<noteq> [] \<and> call_excinfo c = None then (None, capture_all chain w2)
                 else
                   (case integration of
                      None \<Rightarrow> (Some AttributeError, w2)
                    | Some g \<Rightarrow>
                        if always_report g then (None, capture_all chain w2) else (None, w2)))
           else (None, w1)))"

fun wrapped_send :: "hookcall \<Rightarrow> outcome \<Rightarrow> world \<Rightarrow> exn option \<times> world" where
  "wrapped_send (Pytest_runtest_protocol i) y w = (None, sdk Pop_scope w)"
| "wrapped_send (Pytest_runtest_call i) y w = (None, sdk Finish_transaction w)"
| "wrapped_send (Pytest_fixture_setup argname i) y w = (None, sdk Finish_transaction w)"
| "wrapped_send (Pytest_runtest_makereport i c) y w = makereport_send i c y w"
section \<open>The phase interceptor\<close>

text \<open>
  \<open>_with_hub\<close> is a generator too. \<open>with_hub_next\<close> runs it to its first \<open>yield\<close>: it
  resolves the context of the item from its mark; without the integration it yields at
  once; with it, it creates the wrapped generator inside \<open>with hub\<close>, then enters the loop,
  enters \<open>with hub\<close> again and runs the wrapped generator to its \<open>yield\<close>, where it yields
  itself, the block still open. An exception of the wrapped generator leaves the block on
  its way out.
\<close>

datatype suspended = At_bare_yield | At_yield_in_hub

definition with_hub_next :: "process \<Rightarrow> hookcall \<Rightarrow> world \<Rightarrow> (exn + suspended) \<times> world" where
  "with_hub_next pr hc w =
     (case resolve_hub_marker_value pr (get_closest_marker w (itemgetter hc)) of
        (r, m) \<Rightarrow>
          (let w0 = marker_after (itemgetter hc) m w in
           case r of
             Inl e \<Rightarrow> (Inl e, w0)
           | Inr hub \<Rightarrow>
               (case get_integration hub of
                  None \<Rightarrow> (Inr At_bare_yield, w0)
                | Some g \<Rightarrow>
                    (let w1 = hub_exit (hub_enter hub w0);
                         w2 = hub_enter hub w1
                     in case wrapped_next hc w2 of
                          (Some e, w3) \<Rightarrow> (Inl e, hub_exit w3)
                        | (None, w3) \<Rightarrow> (Inr At_yield_in_hub, w3)))))"

text \<open>
  \<open>with_hub_send\<close> resumes it with the value \<open>y\<close> sent by the plugin manager. After the
  bare \<open>yield\<close> the generator ends. Inside the loop, \<open>gen.send(y)\<close> runs the wrapped
  generator to its end; its \<open>StopIteration\<close>, or the exception it raises, leaves the
  \<open>with hub\<close> block, and \<open>StopIteration\<close> ends the loop. With wrapped generators that
  yield once the body of the loop so runs once, in two parts.
\<close>

definition with_hub_send :: "hookcall \<Rightarrow> suspended \<Rightarrow> outcome \<Rightarrow> world \<Rightarrow> exn option \<times> world" where
  "with_hub_send hc s y w =
     (case s of
        At_bare_yield \<Rightarrow> (None, w)
      | At_yield_in_hub \<Rightarrow> (case wrapped_send hc y w of (r, w1) \<Rightarrow> (r, hub_exit w1)))"

text \<open>
  Modelled from the spec: the host engine running a phase (sections 4.2 and 5). A phase is
  work of the engine or of the test (the SDK calls it makes on the current context and its
  outcome), two phases in sequence, or a hook of the plugin wrapped around a phase. For a
  wrapped hook the engine runs the wrapper to its \<open>yield\<close>, runs the inner phase, and
  resumes the wrapper once with the outcome; an exception of the wrapper becomes the outcome.
\<close>

datatype phase =
    Engine "sdk_call list" outcome
  | Seq phase phase
  | Hooked hookcall phase

fun run :: "process \<Rightarrow> phase \<Rightarrow> world \<Rightarrow> outcome \<times> world" where
  "run pr (Engine cs oc) w = (oc, foldl (\<lambda>w' c. sdk c w') w cs)"
| "run pr (Seq p q) w =
     (case run pr p w of
        (Raised e, w1) \<Rightarrow> (Raised e, w1)
      | (Returned r, w1) \<Rightarrow> run pr q w1)"
| "run pr (Hooked hc p) w =
     (case with_hub_next pr hc w of
        (Inl e, w1) \<Rightarrow> (Raised e, w1)
      | (Inr s, w1) \<Rightarrow>
          (case run pr p w1 of
             (oc, w2) \<Rightarrow>
               (case with_hub_send hc s oc w2 of
                  (None, w3) \<Rightarrow> (oc, w3)
                | (Some e, w3) \<Rightarrow> (Raised e, w3))))"

text \<open>The same phase with the plugin not installed.\<close>

fun uninstrumented :: "phase \<Rightarrow> phase" where
  "uninstrumented (Engine cs oc) = Engine cs oc"
| "uninstrumented (Seq p q) = Seq (uninstrumented p) (uninstrumented q)"
| "uninstrumented (Hooked hc p) = uninstrumented p"

text \<open>
  Every wrapped hook of the phase belongs to an item whose context, as the marks in the
  store resolve it, is without the integration.
\<close>

fun plugin_disabled :: "process \<Rightarrow> (nat \<Rightarrow> marker_value list) \<Rightarrow> phase \<Rightarrow> bool" where
  "plugin_disabled pr ms (Engine cs oc) = True"
| "plugin_disabled pr ms (Seq p q) = (plugin_disabled pr ms p \<and> plugin_disabled pr ms q)"
| "plugin_disabled pr ms (Hooked hc p) =
     ((case fst (resolve_hub_marker_value pr (map_option ms (sentry_client (itemgetter hc)))) of
         Inl e \<Rightarrow> False
       | Inr h \<Rightarrow> get_integration h = None)
      \<and> plugin_disabled pr ms p)"

text \<open>
  One firing of the outcome hook for an item: the wrapped \<open>pytest_runtest_makereport\<close>
  around the engine's making of the report, which makes the calls \<open>cs\<close> and returns a
  report with the given outcome.
\<close>

definition report_firing :: "item \<Rightarrow> call_info \<Rightarrow> sdk_call list \<Rightarrow> string \<Rightarrow> phase" where
  "report_firing i c cs oc =
     Hooked (Pytest_runtest_makereport i c) (Engine cs (Returned (TestReport oc)))"

text \<open>The calls into the SDK, without the contexts they were made on.\<close>

definition sdk_calls :: "world \<Rightarrow> sdk_call list" where
  "sdk_calls w = map snd (calls w)"

section \<open>Concrete inputs\<close>

text \<open>
  The SDK on the endpoints used below: it parses the two that carry a public key and
  refuses \<open>https://example.invalid/1\<close>, which carries none; no further option is used.
\<close>

definition sample_sdk :: sdk_tables where
  "sample_sdk =
     \<lparr>known_option = (\<lambda>k. False),
      valid_dsn = (\<lambda>d. d = ''http://key@example.invalid/1'' \<or> d = ''http://envkey@env.invalid/2'')\<rparr>"

text \<open>
  A process whose environment has neither \<open>PYTEST_SENTRY_DSN\<close> nor \<open>SENTRY_DSN\<close>, at
  the import and since: \<open>Client()\<close> at the import gave a client without endpoint.
\<close>

definition default_hub_of :: "environ \<Rightarrow> hub" where
  "default_hub_of environ =
     Hub (Some \<lparr>client_dsn = None, client_options = passed_kwargs environ no_kwargs\<rparr>)"

definition sample_process :: "environ \<Rightarrow> process" where
  "sample_process environ =
     \<lparr>sentry_sdk = sample_sdk, DEFAULT_HUB = default_hub_of environ, os_environ = environ\<rparr>"

text \<open>
  A process in which no context has been entered and the global context has no
  destination; an item without the marker; a captured failure; frames.
\<close>

definition fresh_world :: world where
  "fresh_world =
     \<lparr>current = Hub None, old_hubs = [], calls = [], pytest_sentry_exc_chain = (\<lambda>n. None),
      marks = (\<lambda>a. [])\<rparr>"

definition plain_item :: item where
  "plain_item = \<lparr>nodeid = ''test_a.py::test_x'', sentry_client = None\<rparr>"

definition marked_item :: item where
  "marked_item = \<lparr>nodeid = ''test_a.py::test_x'', sentry_client = Some 0\<rparr>"

definition failure :: excinfo where
  "failure = \<lparr>ei_type = ''AssertionError'', ei_value = ''assert 1 == 2'', ei_tb = ''tb''\<rparr>"

definition pluggy_frame :: frame where
  "pluggy_frame = \<lparr>module = Some (Some ''pluggy._hooks''), in_app = None, frame_rest = []\<rparr>"

definition project_frame :: frame where
  "project_frame =
     \<lparr>module = Some (Some ''myproject.mymodule''), in_app = None, frame_rest = []\<rparr>"

definition nameless_frame :: frame where
  "nameless_frame = \<lparr>module = Some None, in_app = None, frame_rest = []\<rparr>"

definition sample_event :: event where
  "sample_event =
     \<lparr>exception =
        Some \<lparr>exc_values =
                Some [\<lparr>exc_stacktrace = Some \<lparr>frames = Some [pluggy_frame], stacktrace_rest = []\<rparr>,
                       exc_rest = []\<rparr>,
                      \<lparr>exc_stacktrace = None, exc_rest = []\<rparr>],
              exception_rest = []\<rparr>,
      ev_stacktrace = Some \<lparr>frames = Some [project_frame], stacktrace_rest = []\<rparr>,
      event_rest = []\<rparr>"

text \<open>
  An event as the SDK builds it for an exception raised through code whose globals have no
  \<open>__name__\<close>: the first frame of the stack trace has the module \<open>None\<close>.
\<close>

definition nameless_event :: event where
  "nameless_event =
     \<lparr>exception =
        Some \<lparr>exc_values =
                Some [\<lparr>exc_stacktrace =
                         Some \<lparr>frames = Some [nameless_frame, project_frame], stacktrace_rest = []\<rparr>,
                       exc_rest = []\<rparr>],
              exception_rest = []\<rparr>,
      ev_stacktrace = None,
      event_rest = []\<rparr>"

section \<open>The integration toggle: always\_report\<close>

lemma lower_examples:
  "lower ''TRUE'' = ''true''" "lower ''Yes'' = ''yes''" "lower ''1'' = ''1''" "lower '''' = ''''"
  by (simp_all add: lower_def lower_char_def)

text \<open>Which strings the three accepted values stand for, character by character.\<close>

lemma lower_char_unfold:
  "lower_char c =
    (if c = CHR ''A'' then CHR ''a'' else if c = CHR ''B'' then CHR ''b'' else
     if c = CHR ''C'' then CHR ''c'' else if c = CHR ''D'' then CHR ''d'' else
     if c = CHR ''E'' then CHR ''e'' else if c = CHR ''F'' then CHR ''f'' else
     if c = CHR ''G'' then CHR ''g'' else if c = CHR ''H'' then CHR ''h'' else
     if c = CHR ''I'' then CHR ''i'' else if c = CHR ''J'' then CHR ''j'' else
     if c = CHR ''K'' then CHR ''k'' else if c = CHR ''L'' then CHR ''l'' else
     if c = CHR ''M'' then CHR ''m'' else if c = CHR ''N'' then CHR ''n'' else
     if c = CHR ''O'' then CHR ''o'' else if c = CHR ''P'' then CHR ''p'' else
     if c = CHR ''Q'' then CHR ''q'' else if c = CHR ''R'' then CHR ''r'' else
     if c = CHR ''S'' then CHR ''s'' else if c = CHR ''T'' then CHR ''t'' else
     if c = CHR ''U'' then CHR ''u'' else if c = CHR ''V'' then CHR ''v'' else
     if c = CHR ''W'' then CHR ''w'' else if c = CHR ''X'' then CHR ''x'' else
     if c = CHR ''Y'' then CHR ''y'' else if c = CHR ''Z'' then CHR ''z'' else c)"
  by (simp add: lower_char_def)

lemma lower_char_letter:
  "lower_char c = CHR ''t'' \<longleftrightarrow> c = CHR ''t'' \<or> c = CHR ''T''"
  "lower_char c = CHR ''r'' \<longleftrightarrow> c = CHR ''r'' \<or> c = CHR ''R''"
  "lower_char c = CHR ''u'' \<longleftrightarrow> c = CHR ''u'' \<or> c = CHR ''U''"
  "lower_char c = CHR ''e'' \<longleftrightarrow> c = CHR ''e'' \<or> c = CHR ''E''"
  "lower_char c = CHR ''y'' \<longleftrightarrow> c = CHR ''y'' \<or> c = CHR ''Y''"
  "lower_char c = CHR ''s'' \<longleftrightarrow> c = CHR ''s'' \<or> c = CHR ''S''"
  "lower_char c = CHR ''1'' \<longleftrightarrow> c = CHR ''1''"
  unfolding lower_char_unfold by (simp_all split: if_splits)

lemma lower_accepts_1: "lower s = ''1'' \<longleftrightarrow> s = ''1''"
  by (auto simp add: lower_def map_eq_Cons_conv lower_char_letter)

lemma lower_accepts_yes:
  "lower s = ''yes'' \<longleftrightarrow>
     (\<exists>a b c. s = [a, b, c] \<and> (a = CHR ''y'' \<or> a = CHR ''Y'') \<and> (b = CHR ''e'' \<or> b = CHR ''E'')
        \<and> (c = CHR ''s'' \<or> c = CHR ''S''))"
proof
  assume "lower s = ''yes''"
  then obtain a b c where "s = [a, b, c]"
    and "lower_char a = CHR ''y''" "lower_char b = CHR ''e''" "lower_char c = CHR ''s''"
    by (auto simp add: lower_def map_eq_Cons_conv)
  then show "\<exists>a b c. s = [a, b, c] \<and> (a = CHR ''y'' \<or> a = CHR ''Y'')
      \<and> (b = CHR ''e'' \<or> b = CHR ''E'') \<and> (c = CHR ''s'' \<or> c = CHR ''S'')"
    by (simp add: lower_char_letter)
next
  assume "\<exists>a b c. s = [a, b, c] \<and> (a = CHR ''y'' \<or> a = CHR ''Y'')
      \<and> (b = CHR ''e'' \<or> b = CHR ''E'') \<and> (c = CHR ''s'' \<or> c = CHR ''S'')"
  then obtain a b c where "s = [a, b, c]"
    and "lower_char a = CHR ''y''" "lower_char b = CHR ''e''" "lower_char c = CHR ''s''"
    by (auto simp add: lower_char_letter)
  then show "lower s = ''yes''"
    by (simp add: lower_def)
qed

lemma lower_accepts_true:
  "lower s = ''true'' \<longleftrightarrow>
     (\<exists>a b c d. s = [a, b, c, d] \<and> (a = CHR ''t'' \<or> a = CHR ''T'')
        \<and> (b = CHR ''r'' \<or> b = CHR ''R'') \<and> (c = CHR ''u'' \<or> c = CHR ''U'')
        \<and> (d = CHR ''e'' \<or> d = CHR ''E''))"
proof
  assume "lower s = ''true''"
  then obtain a b c d where "s = [a, b, c, d]"
    and "lower_char a = CHR ''t''" "lower_char b = CHR ''r''" "lower_char c = CHR ''u''"
      "lower_char d = CHR ''e''"
    by (auto simp add: lower_def map_eq_Cons_conv)
  then show "\<exists>a b c d. s = [a, b, c, d] \<and> (a = CHR ''t'' \<or> a = CHR ''T'')
      \<and> (b = CHR ''r'' \<or> b = CHR ''R'') \<and> (c = CHR ''u'' \<or> c = CHR ''U'')
      \<and> (d = CHR ''e'' \<or> d = CHR ''E'')"
    by (simp add: lower_char_letter)
next
  assume "\<exists>a b c d. s = [a, b, c, d] \<and> (a = CHR ''t'' \<or> a = CHR ''T'')
      \<and> (b = CHR ''r'' \<or> b = CHR ''R'') \<and> (c = CHR ''u'' \<or> c = CHR ''U'')
      \<and> (d = CHR ''e'' \<or> d = CHR ''E'')"
  then obtain a b c d where "s = [a, b, c, d]"
    and "lower_char a = CHR ''t''" "lower_char b = CHR ''r''" "lower_char c = CHR ''u''"
      "lower_char d = CHR ''e''"
    by (auto simp add: lower_char_letter)
  then show "lower s = ''true''"
    by (simp add: lower_def)
qed

text \<open>
  C7. With no explicit argument the toggle's \<open>always_report\<close> is true exactly when the
  value of the environment variable, lowercased, is \<open>1\<close>, \<open>true\<close> or \<open>yes\<close>; an absent
  variable and the empty string give false. An explicit argument \<open>b\<close> gives \<open>b\<close>,
  whatever the environment holds.
\<close>

theorem PytestIntegration_init_always_report:
  "always_report (PytestIntegration_init (environ(''PYTEST_SENTRY_ALWAYS_REPORT'' \<mapsto> s)) None)
     = (lower s = ''1'' \<or> lower s = ''true'' \<or> lower s = ''yes'')
   \<and> always_report (PytestIntegration_init (environ(''PYTEST_SENTRY_ALWAYS_REPORT'' := None)) None)
     = False
   \<and> always_report (PytestIntegration_init (environ(''PYTEST_SENTRY_ALWAYS_REPORT'' \<mapsto> '''')) None)
     = False
   \<and> always_report (PytestIntegration_init environ (Some b)) = b"
  by (auto simp add: PytestIntegration_init_def lower_def)

section \<open>The event processor\<close>

lemma take_eq_prefix: "(take (length p) s = p) = prefix p s"
proof
  assume "take (length p) s = p"
  then have "s = p @ drop (length p) s"
    by (metis append_take_drop_id)
  then show "prefix p s"
    by (rule prefixI)
next
  assume "prefix p s"
  then obtain r where "s = p @ r"
    by (auto simp add: prefix_def)
  then show "take (length p) s = p"
    by simp
qed

lemma startswith_framework:
  "startswith m [''_pytest.'', ''pytest.'', ''pluggy.'']
     = (prefix ''_pytest.'' m \<or> prefix ''pytest.'' m \<or> prefix ''pluggy.'' m)"
  unfolding startswith_def take_eq_prefix by simp

text \<open>
  On frames that all carry a module name the loop raises nothing and assigns to each.
\<close>

lemma process_frames_named:
  "list_all has_module_name fs \<Longrightarrow> process_frames fs = (None, map marked fs)"
  by (induction fs) (auto simp add: has_module_name_def marked_def split: option.splits)

lemma process_stacktrace_named:
  "frames st \<noteq> None \<Longrightarrow> list_all has_module_name (stacktrace_frames (Some st)) \<Longrightarrow>
     process_stacktrace st = (None, marked_stacktrace st)"
  by (auto simp add: process_stacktrace_def marked_stacktrace_def stacktrace_frames_def
        process_frames_named)

lemma process_exceptions_named:
  "list_all (\<lambda>e. stacktrace_keys (exc_stacktrace e)) xs \<Longrightarrow>
   list_all has_module_name (concat (map (\<lambda>e. stacktrace_frames (exc_stacktrace e)) xs)) \<Longrightarrow>
     process_exceptions xs
       = (None, map (\<lambda>e. e\<lparr>exc_stacktrace := map_option marked_stacktrace (exc_stacktrace e)\<rparr>) xs)"
proof (induction xs)
  case Nil
  show ?case by simp
next
  case (Cons x xs)
  show ?case
  proof (cases "exc_stacktrace x")
    case None
    then show ?thesis using Cons by simp
  next
    case (Some st)
    have "frames st \<noteq> None"
      using Cons.prems(1) Some by (simp add: stacktrace_keys_def)
    moreover have "list_all has_module_name (stacktrace_frames (Some st))"
      using Cons.prems(2) Some by simp
    ultimately have "process_stacktrace st = (None, marked_stacktrace st)"
      by (rule process_stacktrace_named)
    then show ?thesis using Cons Some by simp
  qed
qed

lemma process_event_named:
  assumes "module_names ev"
  shows "process_event ev hint = (Inr (Some (marked_event ev)), marked_event ev)"
proof -
  have keys: "event_keys ev" and named: "list_all has_module_name (event_frames ev)"
    using assms by (simp_all add: module_names_def)
  have named_exc: "list_all has_module_name (exception_frames (exception ev))"
    and named_top: "list_all has_module_name (stacktrace_frames (ev_stacktrace ev))"
    using named by (simp_all add: event_frames_def)
  let ?ev1 = "ev\<lparr>exception :=
          map_option
            (\<lambda>x. x\<lparr>exc_values :=
                     map_option
                       (map (\<lambda>e. e\<lparr>exc_stacktrace :=
                                      map_option marked_stacktrace (exc_stacktrace e)\<rparr>))
                       (exc_values x)\<rparr>)
            (exception ev)\<rparr>"
  have first: "process_exception_key ev = (None, ?ev1)"
  proof (cases "exception ev")
    case None
    then show ?thesis by (simp add: process_exception_key_def)
  next
    case (Some x)
    then obtain xs where xs: "exc_values x = Some xs"
      using keys by (auto simp add: event_keys_def split: option.splits)
    have "process_exceptions xs
       = (None, map (\<lambda>e. e\<lparr>exc_stacktrace := map_option marked_stacktrace (exc_stacktrace e)\<rparr>) xs)"
      using keys named_exc Some xs
      by (intro process_exceptions_named) (simp_all add: event_keys_def exception_frames_def)
    then show ?thesis using Some xs by (simp add: process_exception_key_def)
  qed
  have second: "process_stacktrace_key ?ev1 = (None, marked_event ev)"
  proof (cases "ev_stacktrace ev")
    case None
    then show ?thesis by (simp add: process_stacktrace_key_def marked_event_def)
  next
    case (Some st)
    have "frames st \<noteq> None"
      using keys Some by (simp add: event_keys_def stacktrace_keys_def)
    moreover have "list_all has_module_name (stacktrace_frames (Some st))"
      using named_top Some by simp
    ultimately have "process_stacktrace st = (None, marked_stacktrace st)"
      by (rule process_stacktrace_named)
    then show ?thesis using Some by (simp add: process_stacktrace_key_def marked_event_def)
  qed
  show ?thesis
    by (simp add: process_event_def first second)
qed

lemma marked_named:
  "has_module_name f \<Longrightarrow>
     module (marked f) = module f
     \<and> (\<exists>m. module f = Some (Some m)
            \<and> in_app (marked f)
                = Some (\<not> (prefix ''_pytest.'' m \<or> prefix ''pytest.'' m \<or> prefix ''pluggy.'' m)))"
  by (auto simp add: has_module_name_def marked_def startswith_framework split: option.splits)

lemma stacktrace_frames_marked:
  "stacktrace_frames (map_option marked_stacktrace s) = map marked (stacktrace_frames s)"
  by (auto simp add: stacktrace_frames_def marked_stacktrace_def split: option.splits)

lemma event_frames_marked: "event_frames (marked_event ev) = map marked (event_frames ev)"
proof -
  have "exception_frames (exception (marked_event ev)) = map marked (exception_frames (exception ev))"
    using stacktrace_frames_marked
    by (auto simp add: exception_frames_def marked_event_def map_concat comp_def
        split: option.splits)
  moreover have "stacktrace_frames (ev_stacktrace (marked_event ev))
      = map marked (stacktrace_frames (ev_stacktrace ev))"
    using stacktrace_frames_marked [of "ev_stacktrace ev"] by (simp add: marked_event_def)
  ultimately show ?thesis
    by (simp add: event_frames_def)
qed

text \<open>
  On every event whose indexed keys are present and whose frames all carry a module name,
  the processor returns the event, and each frame of it is marked in application code
  exactly when its module starts with none of \<open>_pytest.\<close>, \<open>pytest.\<close> and \<open>pluggy.\<close>.
\<close>

lemma process_event_marks_named_frames:
  assumes "module_names ev"
  shows "\<exists>ev'. process_event ev hint = (Inr (Some ev'), ev')
     \<and> map module (event_frames ev') = map module (event_frames ev)
     \<and> list_all
         (\<lambda>f. \<exists>m. module f = Some (Some m)
                \<and> in_app f
                    = Some (\<not> (prefix ''_pytest.'' m \<or> prefix ''pytest.'' m \<or> prefix ''pluggy.'' m)))
         (event_frames ev')"
proof -
  have named: "list_all has_module_name (event_frames ev)"
    using assms by (simp add: module_names_def)
  have "map module (map marked (event_frames ev)) = map module (event_frames ev)"
    using named marked_named by (induction "event_frames ev") (auto simp add: list_all_iff)
  moreover have "list_all
         (\<lambda>f. \<exists>m. module f = Some (Some m)
                \<and> in_app f
                    = Some (\<not> (prefix ''_pytest.'' m \<or> prefix ''pytest.'' m \<or> prefix ''pluggy.'' m)))
         (map marked (event_frames ev))"
    using named marked_named by (fastforce simp add: list_all_iff)
  ultimately show ?thesis
    using process_event_named [OF assms, of hint] by (simp add: event_frames_marked)
qed

lemma sample_event_marked:
  "module_names sample_event
   \<and> map in_app (event_frames (snd (process_event sample_event ()))) = [Some False, Some True]"
  by (simp add: process_event_def process_exception_key_def process_stacktrace_key_def
      process_stacktrace_def module_names_def event_keys_def stacktrace_keys_def
      has_module_name_def sample_event_def pluggy_frame_def project_frame_def
      event_frames_def exception_frames_def stacktrace_frames_def startswith_def)

text \<open>
  C6. The claim is about every event. On the event with a frame whose module is \<open>None\<close>
  the processor raises \<open>AttributeError\<close> at that frame: it returns nothing, and the frame
  of \<open>myproject.mymodule\<close> that follows is left without \<open>in_app\<close>.
\<close>

theorem process_event_raises_at_nameless_frame:
  "process_event nameless_event () = (Inl AttributeError, nameless_event)
   \<and> map in_app (event_frames (snd (process_event nameless_event ()))) = [None, None]"
  by (simp add: process_event_def process_exception_key_def process_stacktrace_def
      nameless_event_def nameless_frame_def project_frame_def
      event_frames_def exception_frames_def stacktrace_frames_def)

text \<open>
  Whether the processor returns or raises, nothing but \<open>in_app\<close> is changed: the event
  after the call and the event before it are equal once \<open>in_app\<close> is removed from the
  frames of both. When it returns, it returns the event object and never \<open>None\<close>.
\<close>

lemma clear_process_frames:
  "process_frames fs = (r, fs') \<Longrightarrow>
     map (\<lambda>f. f\<lparr>in_app := None\<rparr>) fs' = map (\<lambda>f. f\<lparr>in_app := None\<rparr>) fs"
  by (induction fs arbitrary: r fs') (auto split: option.splits prod.splits)

lemma clear_process_stacktrace:
  "process_stacktrace st = (r, st') \<Longrightarrow> clear_frames st' = clear_frames st"
  by (auto simp add: clear_frames_def process_stacktrace_def clear_process_frames
      split: option.splits prod.splits)

lemma clear_process_exceptions:
  "process_exceptions xs = (r, xs') \<Longrightarrow>
     map (\<lambda>e. e\<lparr>exc_stacktrace := map_option clear_frames (exc_stacktrace e)\<rparr>) xs'
     = map (\<lambda>e. e\<lparr>exc_stacktrace := map_option clear_frames (exc_stacktrace e)\<rparr>) xs"
  by (induction xs arbitrary: r xs')
    (auto simp add: clear_process_stacktrace split: option.splits prod.splits)

lemma clear_process_exception_key:
  "process_exception_key ev = (r, ev') \<Longrightarrow> clear_in_app ev' = clear_in_app ev"
  by (auto simp add: process_exception_key_def clear_in_app_def clear_process_exceptions
      split: option.splits prod.splits)

lemma clear_process_stacktrace_key:
  "process_stacktrace_key ev = (r, ev') \<Longrightarrow> clear_in_app ev' = clear_in_app ev"
  by (auto simp add: process_stacktrace_key_def clear_in_app_def clear_process_stacktrace
      split: option.splits prod.splits)

lemma process_event_changes_in_app_only:
  "clear_in_app (snd (process_event ev hint)) = clear_in_app ev"
proof -
  obtain r1 ev1 where one: "process_exception_key ev = (r1, ev1)"
    by (cases "process_exception_key ev")
  obtain r2 ev2 where two: "process_stacktrace_key ev1 = (r2, ev2)"
    by (cases "process_stacktrace_key ev1")
  have "clear_in_app ev1 = clear_in_app ev"
    using one by (rule clear_process_exception_key)
  moreover have "clear_in_app ev2 = clear_in_app ev1"
    using two by (rule clear_process_stacktrace_key)
  ultimately show ?thesis
    using one two by (simp add: process_event_def split: option.splits)
qed

lemma process_event_returns_the_event:
  "fst (process_event ev hint) = Inr r \<Longrightarrow> r = Some (snd (process_event ev hint))"
  by (auto simp add: process_event_def split: prod.splits option.splits)

text \<open>
  C10. The claim is about every input event. On an event whose top-level stack trace has a
  frame with the module \<open>None\<close> after a frame of \<open>myproject.mymodule\<close> the processor does
  not return the event: it raises \<open>AttributeError\<close>, after it has set \<open>in_app\<close> in the
  first frame.
\<close>

theorem process_event_does_not_return:
  "process_event
     \<lparr>exception = None,
      ev_stacktrace = Some \<lparr>frames = Some [project_frame, nameless_frame], stacktrace_rest = []\<rparr>,
      event_rest = []\<rparr> ()
   = (Inl AttributeError,
      \<lparr>exception = None,
       ev_stacktrace =
         Some \<lparr>frames = Some [project_frame\<lparr>in_app := Some True\<rparr>, nameless_frame],
               stacktrace_rest = []\<rparr>,
       event_rest = []\<rparr>)"
  by (simp add: process_event_def process_exception_key_def process_stacktrace_key_def
      process_stacktrace_def nameless_frame_def project_frame_def startswith_def)

section \<open>The marker resolver\<close>

lemma Hub_of_Inr: "(Hub_of r = Inr h) = (\<exists>c. r = Inr c \<and> h = Hub (Some c))"
  by (cases r) (auto simp add: Hub_of_def)

lemma is_pytest_init: "is_pytest (PytestIntegration_init environ arg)"
  by (simp add: is_pytest_def PytestIntegration_init_def split: option.splits)

text \<open>A client the constructor of the repository has built carries the toggle it appended.\<close>

lemma sentry_sdk_Client_init_options:
  "sentry_sdk_Client_init s environ arg kw = Inr c \<Longrightarrow> client_options c = kw"
  by (auto simp add: sentry_sdk_Client_init_def split: if_splits option.splits)

lemma get_integration_passed_kwargs:
  "client_options c = passed_kwargs environ kw \<Longrightarrow>
     get_integration (Hub (Some c)) = Some (PytestIntegration_init environ None)"
  by (simp add: get_integration_def passed_kwargs_def is_pytest_init)

lemma Client_init_toggle:
  "fst (Client_init s environ arg kw) = Inr c \<Longrightarrow>
     get_integration (Hub (Some c)) = Some (PytestIntegration_init environ None)"
  using sentry_sdk_Client_init_options [of s environ arg "passed_kwargs environ kw" c]
  by (simp add: Client_init_def get_integration_passed_kwargs)

text \<open>
  The constructor of the SDK decides on the options outside the five and on the endpoint;
  the objects appended in place do not change its verdict.
\<close>

lemma sentry_sdk_Client_init_again:
  "sentry_sdk_Client_init s environ arg (passed_kwargs environ kw) = Inr c \<Longrightarrow>
     \<exists>c'. sentry_sdk_Client_init s environ arg (passed_kwargs environ (callers_kwargs environ kw))
            = Inr c'"
  by (auto simp add: sentry_sdk_Client_init_def options_dsn_def passed_kwargs_def
      callers_kwargs_def split: if_splits option.splits)

text \<open>
  The import: in an environment with neither variable the SDK of the examples builds the
  default context without endpoint; whatever the SDK, a default context that was built
  carries the toggle.
\<close>

lemma sample_import:
  "environ ''PYTEST_SENTRY_DSN'' = None \<Longrightarrow> environ ''SENTRY_DSN'' = None \<Longrightarrow>
     DEFAULT_HUB_at_import sample_sdk environ = Inr (default_hub_of environ)"
  by (simp add: DEFAULT_HUB_at_import_def Client_init_def sentry_sdk_Client_init_def
      options_dsn_def passed_kwargs_def no_kwargs_def Hub_of_def default_hub_of_def
      sample_sdk_def)

lemma DEFAULT_HUB_at_import_toggle:
  "DEFAULT_HUB_at_import s environ = Inr h \<Longrightarrow>
     get_integration h = Some (PytestIntegration_init environ None)"
  by (auto simp add: DEFAULT_HUB_at_import_def Hub_of_Inr Client_init_toggle)

lemma get_integration_default_hub_of:
  "get_integration (default_hub_of environ) = Some (PytestIntegration_init environ None)"
  by (simp add: default_hub_of_def get_integration_passed_kwargs)

lemma resolve_cons:
  "resolve_hub_marker_value pr (Some (v # vs))
     = (fst (resolve_value pr v), Some (snd (resolve_value pr v) # vs))"
  by (simp add: resolve_hub_marker_value_def split: prod.splits)

text \<open>
  C2, as the code has it. The resolver is a function of the process and the mark. No mark
  gives the default context. A marker value \<open>None\<close> gives a context without destination. A
  string is passed to the constructor of the destination as its positional (endpoint)
  argument, a mapping as its keyword arguments: the result is a context around the new
  client when the constructor accepts them and the exception of the constructor otherwise;
  a mapping given directly is changed in place. With \<open>PYTEST_SENTRY_DSN\<close> not set, a string
  the SDK parses (or the empty string) is the endpoint of the new client, and any other
  string raises \<open>BadDsn\<close>. A client is wrapped in a context; a context is returned as it
  is. A callable is replaced by the value of its call, and that value is resolved as a
  literal: a callable returned by the call is not called again. A value of any other type
  raises the error that names \<open>repr(type(v))\<close>. So every marker value gives a context,
  that error, or an exception of the constructor.
\<close>

theorem resolve_hub_marker_value_shapes:
  "resolve_hub_marker_value pr None = (Inr (DEFAULT_HUB pr), None)
   \<and> resolve_hub_marker_value pr (Some (VNone # vs)) = (Inr (Hub None), Some (VNone # vs))
   \<and> resolve_hub_marker_value pr (Some (VStr s # vs))
       = (Hub_of (sentry_sdk_Client_init (sentry_sdk pr) (os_environ pr) (Some s)
                    (passed_kwargs (os_environ pr) no_kwargs)),
          Some (VStr s # vs))
   \<and> (os_environ pr ''PYTEST_SENTRY_DSN'' = None \<longrightarrow>
        fst (resolve_hub_marker_value pr (Some (VStr s # vs)))
          = (if s \<noteq> [] \<and> \<not> valid_dsn (sentry_sdk pr) s then Inl BadDsn
             else Inr (Hub (Some \<lparr>client_dsn = Some s,
                                   client_options = passed_kwargs (os_environ pr) no_kwargs\<rparr>))))
   \<and> resolve_hub_marker_value pr (Some (VDict d # vs))
       = (Hub_of (sentry_sdk_Client_init (sentry_sdk pr) (os_environ pr) None
                    (passed_kwargs (os_environ pr) d)),
          Some (VDict (callers_kwargs (os_environ pr) d) # vs))
   \<and> resolve_hub_marker_value pr (Some (VClient c # vs))
       = (Inr (Hub (Some c)), Some (VClient c # vs))
   \<and> resolve_hub_marker_value pr (Some (VHub h # vs)) = (Inr h, Some (VHub h # vs))
   \<and> resolve_hub_marker_value pr (Some (VOther t # vs))
       = (Inl (RuntimeError
                (''The `sentry_client` value must be a client, hub or string, not '' @ t)),
          Some (VOther t # vs))
   \<and> resolve_hub_marker_value pr (Some (VCallable t r # vs))
       = ((case r of
             VCallable t' r' \<Rightarrow>
               Inl (RuntimeError
                     (''The `sentry_client` value must be a client, hub or string, not '' @ t'))
           | _ \<Rightarrow> fst (resolve_hub_marker_value pr (Some [r]))),
          Some (VCallable t r # vs))
   \<and> ((\<exists>h. fst (resolve_hub_marker_value pr (Some (v # vs))) = Inr h)
        \<or> (\<exists>t. fst (resolve_hub_marker_value pr (Some (v # vs)))
                 = Inl (RuntimeError
                         (''The `sentry_client` value must be a client, hub or string, not ''
                            @ t)))
        \<or> fst (resolve_hub_marker_value pr (Some (v # vs))) = Inl TypeError
        \<or> fst (resolve_hub_marker_value pr (Some (v # vs))) = Inl BadDsn)"
proof -
  have constructor:
    "(\<exists>c. sentry_sdk_Client_init sd environ arg kw = Inr c)
     \<or> sentry_sdk_Client_init sd environ arg kw = Inl TypeError
     \<or> sentry_sdk_Client_init sd environ arg kw = Inl BadDsn" for sd environ arg kw
    by (simp add: sentry_sdk_Client_init_def split: option.splits)
  have literal:
    "(\<exists>h. fst (resolve_value pr u) = Inr h)
     \<or> (\<exists>t. fst (resolve_value pr u)
              = Inl (RuntimeError
                      (''The `sentry_client` value must be a client, hub or string, not '' @ t)))
     \<or> fst (resolve_value pr u) = Inl TypeError
     \<or> fst (resolve_value pr u) = Inl BadDsn" if "\<And>t r. u \<noteq> VCallable t r" for u
  proof (cases u)
    case (VStr s)
    then show ?thesis
      using constructor [of "sentry_sdk pr" "os_environ pr" "Some s"
          "passed_kwargs (os_environ pr) no_kwargs"]
      by (auto simp add: resolve_value_def Let_def Client_init_def Hub_of_def)
  next
    case (VDict d)
    then show ?thesis
      using constructor [of "sentry_sdk pr" "os_environ pr" None "passed_kwargs (os_environ pr) d"]
      by (auto simp add: resolve_value_def Let_def Client_init_def Hub_of_def)
  next
    case (VCallable t r)
    then show ?thesis using that by simp
  qed (simp_all add: resolve_value_def Let_def type_repr_def)
  have callable:
    "resolve_hub_marker_value pr (Some (VCallable t r # vs))
       = ((case r of
             VCallable t' r' \<Rightarrow>
               Inl (RuntimeError
                     (''The `sentry_client` value must be a client, hub or string, not '' @ t'))
           | _ \<Rightarrow> fst (resolve_hub_marker_value pr (Some [r]))),
          Some (VCallable t r # vs))"
    by (cases r)
      (simp_all add: resolve_hub_marker_value_def resolve_value_def Let_def type_repr_def
        split: prod.splits)
  have total:
    "(\<exists>h. fst (resolve_hub_marker_value pr (Some (v # vs))) = Inr h)
        \<or> (\<exists>t. fst (resolve_hub_marker_value pr (Some (v # vs)))
                 = Inl (RuntimeError
                         (''The `sentry_client` value must be a client, hub or string, not ''
                            @ t)))
        \<or> fst (resolve_hub_marker_value pr (Some (v # vs))) = Inl TypeError
        \<or> fst (resolve_hub_marker_value pr (Some (v # vs))) = Inl BadDsn"
  proof -
    have first: "fst (resolve_hub_marker_value pr (Some (v # vs))) = fst (resolve_value pr v)"
      by (simp add: resolve_cons)
    show ?thesis
    proof (cases "\<exists>t r. v = VCallable t r")
      case False
      then show ?thesis using literal [of v] by (simp add: first)
    next
      case True
      then obtain t r where v: "v = VCallable t r"
        by blast
      show ?thesis
      proof (cases "\<exists>t' r'. r = VCallable t' r'")
        case True
        then show ?thesis
          using v by (auto simp add: resolve_cons resolve_value_def Let_def type_repr_def)
      next
        case False
        then have "fst (resolve_value pr v) = fst (resolve_value pr r)"
          using v by (cases r) (simp_all add: resolve_value_def Let_def split: prod.splits)
        then show ?thesis using literal [of r] False by (simp add: first)
      qed
    qed
  qed
  have endpoint:
    "os_environ pr ''PYTEST_SENTRY_DSN'' = None \<longrightarrow>
        fst (resolve_hub_marker_value pr (Some (VStr s # vs)))
          = (if s \<noteq> [] \<and> \<not> valid_dsn (sentry_sdk pr) s then Inl BadDsn
             else Inr (Hub (Some \<lparr>client_dsn = Some s,
                                   client_options = passed_kwargs (os_environ pr) no_kwargs\<rparr>)))"
    by (simp add: resolve_hub_marker_value_def resolve_value_def Let_def Client_init_def
        sentry_sdk_Client_init_def options_dsn_def passed_kwargs_def no_kwargs_def Hub_of_def)
  have shapes:
    "resolve_hub_marker_value pr None = (Inr (DEFAULT_HUB pr), None)"
    "resolve_hub_marker_value pr (Some (VNone # vs)) = (Inr (Hub None), Some (VNone # vs))"
    "resolve_hub_marker_value pr (Some (VStr s # vs))
       = (Hub_of (sentry_sdk_Client_init (sentry_sdk pr) (os_environ pr) (Some s)
                    (passed_kwargs (os_environ pr) no_kwargs)),
          Some (VStr s # vs))"
    "resolve_hub_marker_value pr (Some (VDict d # vs))
       = (Hub_of (sentry_sdk_Client_init (sentry_sdk pr) (os_environ pr) None
                    (passed_kwargs (os_environ pr) d)),
          Some (VDict (callers_kwargs (os_environ pr) d) # vs))"
    "resolve_hub_marker_value pr (Some (VClient c # vs))
       = (Inr (Hub (Some c)), Some (VClient c # vs))"
    "resolve_hub_marker_value pr (Some (VHub h # vs)) = (Inr h, Some (VHub h # vs))"
    "resolve_hub_marker_value pr (Some (VOther t # vs))
       = (Inl (RuntimeError
                (''The `sentry_client` value must be a client, hub or string, not '' @ t)),
          Some (VOther t # vs))"
    by (simp_all add: resolve_hub_marker_value_def resolve_value_def Let_def Client_init_def
        type_repr_def)
  show ?thesis
    using shapes callable total endpoint by blast
qed

text \<open>
  With \<open>PYTEST_SENTRY_DSN\<close> not set, the marker \<open>http://key@example.invalid/1\<close> gives a
  context whose client reports to that endpoint.
\<close>

theorem resolve_hub_marker_value_shapes_witness:
  "os_environ (sample_process Map.empty) ''PYTEST_SENTRY_DSN'' = None
   \<and> fst (resolve_hub_marker_value (sample_process Map.empty)
            (Some [VStr ''http://key@example.invalid/1'']))
     = Inr (Hub (Some \<lparr>client_dsn = Some ''http://key@example.invalid/1'',
                        client_options = passed_kwargs Map.empty no_kwargs\<rparr>))"
  using resolve_hub_marker_value_shapes
    [where pr = "sample_process Map.empty" and s = "''http://key@example.invalid/1''"
       and vs = "[]", THEN conjunct2, THEN conjunct2, THEN conjunct2, THEN conjunct1]
  by (simp add: sample_process_def sample_sdk_def)

text \<open>
  The claim as stated fails. The resolver is not total over the strings: the marker
  \<open>https://example.invalid/1\<close>, an endpoint without public key, gives no context but the
  \<open>BadDsn\<close> of the SDK's constructor. And the string is not always the endpoint: with
  \<open>PYTEST_SENTRY_DSN\<close> set to \<open>http://envkey@env.invalid/2\<close> the marker
  \<open>http://key@example.invalid/1\<close> gives a client that reports to the endpoint of the
  environment variable, because the keyword \<open>dsn\<close> defaulted from the variable has
  precedence over the positional argument.
\<close>

theorem string_marker_counterexample:
  "fst (resolve_hub_marker_value (sample_process Map.empty)
          (Some [VStr ''https://example.invalid/1'']))
     = Inl BadDsn
   \<and> fst (resolve_hub_marker_value
            ((sample_process Map.empty)
               \<lparr>os_environ := [''PYTEST_SENTRY_DSN'' \<mapsto> ''http://envkey@env.invalid/2'']\<rparr>)
            (Some [VStr ''http://key@example.invalid/1'']))
     = Inr (Hub (Some
         \<lparr>client_dsn = Some ''http://envkey@env.invalid/2'',
          client_options =
            passed_kwargs [''PYTEST_SENTRY_DSN'' \<mapsto> ''http://envkey@env.invalid/2''] no_kwargs\<rparr>))"
  by (simp add: resolve_hub_marker_value_def resolve_value_def Let_def Client_init_def
      sentry_sdk_Client_init_def options_dsn_def passed_kwargs_def no_kwargs_def Hub_of_def
      sample_process_def sample_sdk_def)

text \<open>A mark without positional argument has no marker value: \<open>args[0]\<close> raises.\<close>

lemma resolve_hub_marker_value_no_args:
  "resolve_hub_marker_value pr (Some []) = (Inl IndexError, Some [])"
  by (simp add: resolve_hub_marker_value_def)

text \<open>
  A context with the toggle stays one: after the resolver has run on a mark and given a
  context with the toggle, it gives a context with the same toggle when it runs on the mark
  again (a mapping has by then been changed in place).
\<close>

lemma resolve_value_toggle_stable:
  assumes "fst (resolve_value pr v) = Inr h" and "get_integration h = Some g"
  shows "\<exists>h'. fst (resolve_value pr (snd (resolve_value pr v))) = Inr h'
            \<and> get_integration h' = Some g"
proof (cases v)
  case (VDict d)
  obtain c where c: "sentry_sdk_Client_init (sentry_sdk pr) (os_environ pr) None
                       (passed_kwargs (os_environ pr) d) = Inr c"
    and h: "h = Hub (Some c)"
    using assms(1) VDict by (auto simp add: resolve_value_def Let_def Client_init_def Hub_of_Inr)
  have g: "g = PytestIntegration_init (os_environ pr) None"
    using assms(2) h sentry_sdk_Client_init_options [OF c]
    by (simp add: get_integration_passed_kwargs)
  obtain c' where c': "sentry_sdk_Client_init (sentry_sdk pr) (os_environ pr) None
                       (passed_kwargs (os_environ pr) (callers_kwargs (os_environ pr) d)) = Inr c'"
    using sentry_sdk_Client_init_again [OF c] by blast
  have "get_integration (Hub (Some c')) = Some g"
    using sentry_sdk_Client_init_options [OF c'] g by (simp add: get_integration_passed_kwargs)
  then show ?thesis
    using VDict c' by (auto simp add: resolve_value_def Let_def Client_init_def Hub_of_def)
qed (use assms in \<open>auto simp add: resolve_value_def Let_def split: marker_value.splits prod.splits\<close>)

lemma resolve_toggle_stable:
  assumes "fst (resolve_hub_marker_value pr m) = Inr h" and "get_integration h = Some g"
  shows "\<exists>h'. fst (resolve_hub_marker_value pr (snd (resolve_hub_marker_value pr m))) = Inr h'
            \<and> get_integration h' = Some g"
proof (cases m)
  case None
  then show ?thesis
    using assms by (simp add: resolve_hub_marker_value_def)
next
  case (Some args)
  show ?thesis
  proof (cases args)
    case Nil
    then show ?thesis using assms Some by (simp add: resolve_hub_marker_value_def)
  next
    case (Cons v vs)
    have "fst (resolve_value pr v) = Inr h"
      using assms(1) Some Cons by (simp add: resolve_cons)
    then show ?thesis
      using resolve_value_toggle_stable [OF _ assms(2), of pr v] Some Cons
      by (simp add: resolve_cons)
  qed
qed

text \<open>A mark that resolves to a context without the toggle is left as it was.\<close>

lemma resolve_value_disabled_unchanged:
  assumes "fst (resolve_value pr v) = Inr h" and "get_integration h = None"
  shows "snd (resolve_value pr v) = v"
proof (cases v)
  case (VDict d)
  obtain c where c: "sentry_sdk_Client_init (sentry_sdk pr) (os_environ pr) None
                       (passed_kwargs (os_environ pr) d) = Inr c"
    and h: "h = Hub (Some c)"
    using assms(1) VDict by (auto simp add: resolve_value_def Let_def Client_init_def Hub_of_Inr)
  have "get_integration h = Some (PytestIntegration_init (os_environ pr) None)"
    using h sentry_sdk_Client_init_options [OF c] by (simp add: get_integration_passed_kwargs)
  then show ?thesis using assms(2) by simp
qed (auto simp add: resolve_value_def Let_def split: marker_value.splits prod.splits)

lemma resolve_disabled_unchanged:
  assumes "fst (resolve_hub_marker_value pr m) = Inr h" and "get_integration h = None"
  shows "snd (resolve_hub_marker_value pr m) = m"
proof (cases m)
  case None
  then show ?thesis by (simp add: resolve_hub_marker_value_def)
next
  case (Some args)
  show ?thesis
  proof (cases args)
    case Nil
    then show ?thesis using Some by (simp add: resolve_hub_marker_value_def)
  next
    case (Cons v vs)
    have "fst (resolve_value pr v) = Inr h"
      using assms(1) Some Cons by (simp add: resolve_cons)
    then have "snd (resolve_value pr v) = v"
      using assms(2) by (rule resolve_value_disabled_unchanged)
    then show ?thesis
      using Some Cons by (simp add: resolve_cons)
  qed
qed

section \<open>The transaction of the call phase\<close>

lemma endswith_single: "endswith s [c] = (s \<noteq> [] \<and> last s = c)"
proof (cases s rule: rev_cases)
  case Nil
  then show ?thesis by (simp add: endswith_def)
next
  case (snoc ys y)
  then show ?thesis by (auto simp add: endswith_def)
qed

lemma rfind_absent: "c \<notin> set s \<Longrightarrow> rfind s c = -1"
  by (induction s) (auto simp add: Let_def)

lemma rfind_last_occurrence: "c \<notin> set suf \<Longrightarrow> rfind (pre @ c # suf) c = int (length pre)"
  by (induction pre) (simp_all add: Let_def rfind_absent)

lemma runtest_call_name_cases:
  "(\<forall>pre mid. name = pre @ ''['' @ mid @ '']'' \<and> CHR ''['' \<notin> set mid
       \<longrightarrow> runtest_call_name name = pre)
   \<and> (name \<noteq> [] \<and> last name = CHR '']'' \<and> CHR ''['' \<notin> set name
       \<longrightarrow> runtest_call_name name = name)
   \<and> (\<not> (name \<noteq> [] \<and> last name = CHR '']'') \<longrightarrow> runtest_call_name name = name)"
proof (intro conjI allI impI)
  fix pre mid
  assume a: "name = pre @ ''['' @ mid @ '']'' \<and> CHR ''['' \<notin> set mid"
  then have n: "name = pre @ CHR ''['' # (mid @ '']'')" and m: "CHR ''['' \<notin> set (mid @ '']'')"
    by simp_all
  have "rfind name (CHR ''['') = int (length pre)"
    unfolding n using m by (rule rfind_last_occurrence)
  moreover have "endswith name '']''"
    using a by (simp add: endswith_single)
  ultimately show "runtest_call_name name = pre"
    using n by (simp add: runtest_call_name_def)
next
  assume "name \<noteq> [] \<and> last name = CHR '']'' \<and> CHR ''['' \<notin> set name"
  then show "runtest_call_name name = name"
    by (simp add: runtest_call_name_def rfind_absent)
next
  assume "\<not> (name \<noteq> [] \<and> last name = CHR '']'')"
  then show "runtest_call_name name = name"
    by (auto simp add: runtest_call_name_def endswith_single)
qed

text \<open>
  C9. The call hook starts, before it yields, one transaction on the current context: its
  operation is \<open>pytest.runtest.call\<close> and its name is \<open>pytest.runtest.call\<close>, a space, and
  the nodeid of the item. A nodeid that ends with \<open>]\<close> and contains \<open>[\<close> is cut before
  its last \<open>[\<close>; one that ends with \<open>]\<close> and contains no \<open>[\<close>, and one that does not end
  with \<open>]\<close>, are used as they are.
\<close>

theorem pytest_runtest_call_transaction:
  "(\<forall>pre mid. nodeid i = pre @ ''['' @ mid @ '']'' \<and> CHR ''['' \<notin> set mid
       \<longrightarrow> wrapped_next (Pytest_runtest_call i) w
           = (None, sdk (Start_transaction ''pytest.runtest.call''
                          (''pytest.runtest.call '' @ pre)) w))
   \<and> (nodeid i \<noteq> [] \<and> last (nodeid i) = CHR '']'' \<and> CHR ''['' \<notin> set (nodeid i)
       \<longrightarrow> wrapped_next (Pytest_runtest_call i) w
           = (None, sdk (Start_transaction ''pytest.runtest.call''
                          (''pytest.runtest.call '' @ nodeid i)) w))
   \<and> (\<not> (nodeid i \<noteq> [] \<and> last (nodeid i) = CHR '']'')
       \<longrightarrow> wrapped_next (Pytest_runtest_call i) w
           = (None, sdk (Start_transaction ''pytest.runtest.call''
                          (''pytest.runtest.call '' @ nodeid i)) w))"
  using runtest_call_name_cases [of "nodeid i"]
  by (simp add: format_op_name_def)

theorem pytest_runtest_call_transaction_witness:
  "wrapped_next (Pytest_runtest_call \<lparr>nodeid = ''test_a.py::test_x[a[0]-b]'', sentry_client = None\<rparr>)
       fresh_world
     = (None, sdk (Start_transaction ''pytest.runtest.call''
                    ''pytest.runtest.call test_a.py::test_x[a'') fresh_world)
   \<and> wrapped_next (Pytest_runtest_call \<lparr>nodeid = ''test_x]'', sentry_client = None\<rparr>) fresh_world
     = (None, sdk (Start_transaction ''pytest.runtest.call''
                    ''pytest.runtest.call test_x]'') fresh_world)
   \<and> wrapped_next (Pytest_runtest_call plain_item) fresh_world
     = (None, sdk (Start_transaction ''pytest.runtest.call''
                    ''pytest.runtest.call test_a.py::test_x'') fresh_world)"
proof -
  have a: "wrapped_next (Pytest_runtest_call \<lparr>nodeid = ''test_a.py::test_x[a[0]-b]'', sentry_client = None\<rparr>)
       fresh_world
     = (None, sdk (Start_transaction ''pytest.runtest.call''
                    (''pytest.runtest.call '' @ ''test_a.py::test_x[a'')) fresh_world)"
    using pytest_runtest_call_transaction
      [of "\<lparr>nodeid = ''test_a.py::test_x[a[0]-b]'', sentry_client = None\<rparr>" fresh_world]
    by (elim conjE allE [of _ "''test_a.py::test_x[a''"] allE [of _ "''0]-b''"]) simp
  have b: "wrapped_next (Pytest_runtest_call \<lparr>nodeid = ''test_x]'', sentry_client = None\<rparr>) fresh_world
     = (None, sdk (Start_transaction ''pytest.runtest.call''
                    (''pytest.runtest.call '' @ ''test_x]'')) fresh_world)"
    using pytest_runtest_call_transaction
      [of "\<lparr>nodeid = ''test_x]'', sentry_client = None\<rparr>" fresh_world]
    by simp
  have c: "wrapped_next (Pytest_runtest_call plain_item) fresh_world
     = (None, sdk (Start_transaction ''pytest.runtest.call''
                    (''pytest.runtest.call '' @ ''test_a.py::test_x'')) fresh_world)"
    using pytest_runtest_call_transaction [of plain_item fresh_world]
    by (simp add: plain_item_def)
  show ?thesis using a b c by simp
qed

section \<open>The active context\<close>

lemma sdk_fields [simp]:
  "current (sdk c w) = current w" "old_hubs (sdk c w) = old_hubs w"
  "calls (sdk c w) = calls w @ [(current w, c)]"
  "pytest_sentry_exc_chain (sdk c w) = pytest_sentry_exc_chain w"
  "marks (sdk c w) = marks w"
  by (simp_all add: sdk_def)

lemma hub_enter_fields [simp]:
  "current (hub_enter h w) = h" "old_hubs (hub_enter h w) = current w # old_hubs w"
  "calls (hub_enter h w) = calls w"
  "pytest_sentry_exc_chain (hub_enter h w) = pytest_sentry_exc_chain w"
  "marks (hub_enter h w) = marks w"
  by (simp_all add: hub_enter_def)

lemma hub_exit_fields [simp]:
  "calls (hub_exit w) = calls w"
  "pytest_sentry_exc_chain (hub_exit w) = pytest_sentry_exc_chain w"
  "marks (hub_exit w) = marks w"
  by (simp_all add: hub_exit_def split: list.splits)

lemma hub_exit_enter: "hub_exit (hub_enter h w) = w"
  by (simp add: hub_exit_def hub_enter_def)

lemma marker_after_fields [simp]:
  "current (marker_after i m w) = current w" "old_hubs (marker_after i m w) = old_hubs w"
  "calls (marker_after i m w) = calls w"
  "pytest_sentry_exc_chain (marker_after i m w) = pytest_sentry_exc_chain w"
  by (simp_all add: marker_after_def split: option.splits)

lemma foldl_sdk_fields:
  "current (foldl (\<lambda>w' c. sdk (f c) w') w cs) = current w"
  "old_hubs (foldl (\<lambda>w' c. sdk (f c) w') w cs) = old_hubs w"
  "pytest_sentry_exc_chain (foldl (\<lambda>w' c. sdk (f c) w') w cs) = pytest_sentry_exc_chain w"
  "marks (foldl (\<lambda>w' c. sdk (f c) w') w cs) = marks w"
  by (induction cs arbitrary: w) simp_all

lemma foldl_sdk_calls:
  "calls (foldl (\<lambda>w' c. sdk (f c) w') w cs) = calls w @ map (\<lambda>c. (current w, f c)) cs"
  by (induction cs arbitrary: w) (simp_all add: foldl_sdk_fields)

lemma engine_fields [simp]:
  "current (foldl (\<lambda>w' c. sdk c w') w cs) = current w"
  "old_hubs (foldl (\<lambda>w' c. sdk c w') w cs) = old_hubs w"
  "pytest_sentry_exc_chain (foldl (\<lambda>w' c. sdk c w') w cs) = pytest_sentry_exc_chain w"
  "marks (foldl (\<lambda>w' c. sdk c w') w cs) = marks w"
  "calls (foldl (\<lambda>w' c. sdk c w') w cs) = calls w @ map (Pair (current w)) cs"
  using foldl_sdk_fields [of "\<lambda>c. c" w cs] foldl_sdk_calls [of "\<lambda>c. c" w cs]
  by simp_all

lemma capture_all_fields [simp]:
  "current (capture_all ch w) = current w" "old_hubs (capture_all ch w) = old_hubs w"
  "pytest_sentry_exc_chain (capture_all ch w) = pytest_sentry_exc_chain w"
  "marks (capture_all ch w) = marks w"
  "calls (capture_all ch w) = calls w @ map (\<lambda>e. (current w, Capture_exception (exc_tuple e))) ch"
  by (simp_all add: capture_all_def foldl_sdk_fields foldl_sdk_calls)

text \<open>The wrapped hooks neither enter nor leave a context, and leave the marks alone.\<close>

lemma wrapped_next_hubs:
  "current (snd (wrapped_next hc w)) = current w \<and> old_hubs (snd (wrapped_next hc w)) = old_hubs w
   \<and> marks (snd (wrapped_next hc w)) = marks w"
  by (cases hc) simp_all

lemma makereport_send_hubs:
  "current (snd (makereport_send i c y w)) = current w
   \<and> old_hubs (snd (makereport_send i c y w)) = old_hubs w
   \<and> marks (snd (makereport_send i c y w)) = marks w"
  by (simp add: makereport_send_def Let_def split: outcome.splits hook_result.splits option.splits)

lemma wrapped_send_hubs:
  "current (snd (wrapped_send hc y w)) = current w
   \<and> old_hubs (snd (wrapped_send hc y w)) = old_hubs w
   \<and> marks (snd (wrapped_send hc y w)) = marks w"
  by (cases hc) (simp_all add: makereport_send_hubs)

text \<open>
  Where the interceptor stands after its first part: an exception has left every block
  it opened; at the bare yield no block was opened; at the yield inside the loop exactly
  one block is open, and it saved the context that was current before.
\<close>

lemma with_hub_next_hubs:
  assumes "with_hub_next pr hc w = (r, w1)"
  shows "(case r of
        Inl e \<Rightarrow> current w1 = current w \<and> old_hubs w1 = old_hubs w
      | Inr At_bare_yield \<Rightarrow> current w1 = current w \<and> old_hubs w1 = old_hubs w
      | Inr At_yield_in_hub \<Rightarrow> old_hubs w1 = current w # old_hubs w)"
proof -
  obtain rh m where res: "resolve_hub_marker_value pr (get_closest_marker w (itemgetter hc)) = (rh, m)"
    by (cases "resolve_hub_marker_value pr (get_closest_marker w (itemgetter hc))")
  let ?w0 = "marker_after (itemgetter hc) m w"
  show ?thesis
  proof (cases rh)
    case (Inl e)
    then show ?thesis using assms res by (auto simp add: with_hub_next_def Let_def)
  next
    case (Inr h)
    show ?thesis
    proof (cases "get_integration h")
      case None
      then show ?thesis using assms res Inr by (auto simp add: with_hub_next_def Let_def)
    next
      case (Some g)
      obtain r3 w3 where n: "wrapped_next hc (hub_enter h ?w0) = (r3, w3)"
        by (cases "wrapped_next hc (hub_enter h ?w0)")
      have h3: "current w3 = h \<and> old_hubs w3 = current w # old_hubs w"
        using wrapped_next_hubs [of hc "hub_enter h ?w0"] n by simp
      have "with_hub_next pr hc w
          = (case r3 of None \<Rightarrow> (Inr At_yield_in_hub, w3) | Some e \<Rightarrow> (Inl e, hub_exit w3))"
        using res Inr Some n
        by (simp add: with_hub_next_def Let_def hub_exit_enter split: option.splits)
      then have "(case r3 of None \<Rightarrow> (Inr At_yield_in_hub, w3) | Some e \<Rightarrow> (Inl e, hub_exit w3))
          = (r, w1)"
        using assms by simp
      then show ?thesis
        using h3 by (cases r3) (auto simp add: hub_exit_def)
    qed
  qed
qed

lemma with_hub_send_hubs:
  "with_hub_send hc s y w = (r, w1) \<Longrightarrow>
     (case s of
        At_bare_yield \<Rightarrow> w1 = w
      | At_yield_in_hub \<Rightarrow>
          (case old_hubs w of
             [] \<Rightarrow> current w1 = current w \<and> old_hubs w1 = []
           | h # hs \<Rightarrow> current w1 = h \<and> old_hubs w1 = hs))"
  using wrapped_send_hubs [of hc y w]
  by (auto simp add: with_hub_send_def hub_exit_def split: suspended.splits prod.splits list.splits)

text \<open>
  C1. After a phase has run, with any nesting of wrapped hooks inside it and whether its
  outcome is a value or an exception, the current context and the stack of saved contexts
  are those from before the phase.
\<close>

theorem run_restores_active_hub:
  "current (snd (run pr p w)) = current w \<and> old_hubs (snd (run pr p w)) = old_hubs w"
proof (induction p arbitrary: w)
  case (Engine cs oc)
  show ?case by simp
next
  case (Seq p q)
  obtain o1 w1 where p: "run pr p w = (o1, w1)"
    by (cases "run pr p w")
  have h1: "current w1 = current w \<and> old_hubs w1 = old_hubs w"
    using Seq.IH(1) [of w] p by simp
  show ?case
  proof (cases o1)
    case (Raised e)
    then show ?thesis using p h1 by simp
  next
    case (Returned r)
    then show ?thesis using p h1 Seq.IH(2) [of w1] by simp
  qed
next
  case (Hooked hc p)
  obtain r w1 where n: "with_hub_next pr hc w = (r, w1)"
    by (cases "with_hub_next pr hc w")
  note nh = with_hub_next_hubs [OF n]
  show ?case
  proof (cases r)
    case (Inl e)
    then show ?thesis using n nh by simp
  next
    case (Inr s)
    obtain oc w2 where i: "run pr p w1 = (oc, w2)"
      by (cases "run pr p w1")
    have h2: "current w2 = current w1 \<and> old_hubs w2 = old_hubs w1"
      using Hooked.IH [of w1] i by simp
    obtain r3 w3 where s3: "with_hub_send hc s oc w2 = (r3, w3)"
      by (cases "with_hub_send hc s oc w2")
    note sh = with_hub_send_hubs [OF s3]
    have "current w3 = current w \<and> old_hubs w3 = old_hubs w"
      using Inr nh sh h2 by (cases s) simp_all
    then show ?thesis using n Inr i s3 by (cases r3) simp_all
  qed
qed

lemma default_toggle: "PytestIntegration_init Map.empty None = PytestIntegration False"
  by (simp add: PytestIntegration_init_def lower_def)

lemma get_integration_no_client: "get_integration (Hub None) = None"
  by (simp add: get_integration_def)

lemma fresh_world_fields:
  "current fresh_world = Hub None" "old_hubs fresh_world = []" "calls fresh_world = []"
  "pytest_sentry_exc_chain fresh_world n = None" "marks fresh_world a = []"
  by (simp_all add: fresh_world_def)

lemma sample_process_fields:
  "sentry_sdk (sample_process environ) = sample_sdk"
  "DEFAULT_HUB (sample_process environ) = default_hub_of environ"
  "os_environ (sample_process environ) = environ"
  by (simp_all add: sample_process_def)

lemma plain_item_resolves:
  "resolve_hub_marker_value pr (get_closest_marker w plain_item) = (Inr (DEFAULT_HUB pr), None)"
  "marker_after plain_item m w = w"
  by (simp_all add: resolve_hub_marker_value_def resolve_value_def get_closest_marker_def
      marker_after_def plain_item_def)

text \<open>
  A fixture set up and a test body that raises, both inside the protocol hook of an item
  without marker: every call is made on the default context, and the context of the fresh
  process is current again at the end.
\<close>

lemma nested_phases_example:
  "run (sample_process Map.empty)
     (Hooked (Pytest_runtest_protocol plain_item)
        (Seq (Hooked (Pytest_fixture_setup ''tmp_path'' plain_item) (Engine [] (Returned NoResult)))
             (Hooked (Pytest_runtest_call plain_item) (Engine [] (Raised (Exception ''boom''))))))
     fresh_world
   = (Raised (Exception ''boom''),
      fresh_world
        \<lparr>calls := map (Pair (default_hub_of Map.empty))
           [Push_scope, Add_event_processor,
            Start_transaction ''pytest.fixture.setup'' ''pytest.fixture.setup tmp_path'',
            Finish_transaction,
            Start_transaction ''pytest.runtest.call'' ''pytest.runtest.call test_a.py::test_x'',
            Finish_transaction,
            Pop_scope]\<rparr>)"
proof -
  have name: "runtest_call_name (nodeid plain_item) = ''test_a.py::test_x''"
    by (simp add: runtest_call_name_def plain_item_def endswith_def)
  show ?thesis
    by (simp add: with_hub_next_def with_hub_send_def plain_item_resolves
        sample_process_fields get_integration_default_hub_of name
        fresh_world_def hub_enter_def hub_exit_def sdk_def format_op_name_def Let_def)
qed

section \<open>Hooks of an item without the integration\<close>

lemma marker_after_same: "marker_after i (get_closest_marker w i) w = w"
  by (simp add: marker_after_def get_closest_marker_def split: option.splits)

text \<open>Without the plugin a phase leaves the marks as they are.\<close>

lemma uninstrumented_marks: "marks (snd (run pr (uninstrumented p) w)) = marks w"
proof (induction p arbitrary: w)
  case (Engine cs oc)
  show ?case by simp
next
  case (Seq p q)
  obtain o1 w1 where p: "run pr (uninstrumented p) w = (o1, w1)"
    by (cases "run pr (uninstrumented p) w")
  have m1: "marks w1 = marks w"
    using Seq.IH(1) [of w] p by simp
  show ?case
    using p m1 Seq.IH(2) [of w1] by (cases o1) simp_all
next
  case (Hooked hc p)
  then show ?case by simp
qed

text \<open>
  C5, as the code has it. The interceptor reads the integration from the context it
  resolves for the item, not from the context that is current. When every wrapped hook of
  a phase belongs to an item whose context has no integration, the phase runs as it does
  without the plugin: the same outcome and the same state, so no call into the SDK is
  added and no context is entered or left.
\<close>

theorem disabled_hooks_pass_through:
  "plugin_disabled pr (marks w) p \<Longrightarrow> run pr p w = run pr (uninstrumented p) w"
proof (induction p arbitrary: w)
  case (Engine cs oc)
  show ?case by simp
next
  case (Seq p q)
  have first: "run pr p w = run pr (uninstrumented p) w"
    using Seq.IH(1) [of w] Seq.prems by simp
  obtain o1 w1 where p: "run pr p w = (o1, w1)"
    by (cases "run pr p w")
  have u: "run pr (uninstrumented p) w = (o1, w1)"
    using first p by simp
  have "marks w1 = marks w"
    using uninstrumented_marks [of pr p w] unfolding u by simp
  then have second: "run pr q w1 = run pr (uninstrumented q) w1"
    using Seq.IH(2) [of w1] Seq.prems by simp
  show ?case
    using second by (cases o1) (simp_all add: p u)
next
  case (Hooked hc p)
  let ?i = "itemgetter hc"
  obtain h where r: "fst (resolve_hub_marker_value pr (get_closest_marker w ?i)) = Inr h"
    and g: "get_integration h = None"
    using Hooked.prems by (auto simp add: get_closest_marker_def split: sum.splits)
  have same: "snd (resolve_hub_marker_value pr (get_closest_marker w ?i)) = get_closest_marker w ?i"
    using r g by (rule resolve_disabled_unchanged)
  have n: "with_hub_next pr hc w = (Inr At_bare_yield, w)"
    using r g same
    by (cases "resolve_hub_marker_value pr (get_closest_marker w ?i)")
      (simp add: with_hub_next_def Let_def marker_after_same)
  have "run pr (Hooked hc p) w = run pr p w"
    by (simp add: n with_hub_send_def split: prod.splits)
  then show ?case
    using Hooked.IH [of w] Hooked.prems by simp
qed

text \<open>
  An item marked with \<open>None\<close>, in a process whose current context carries the integration:
  the protocol hook and the call hook around the test body add nothing.
\<close>

theorem disabled_hooks_pass_through_witness:
  "plugin_disabled (sample_process Map.empty) (\<lambda>a. [VNone])
     (Hooked (Pytest_runtest_protocol marked_item)
        (Hooked (Pytest_runtest_call marked_item)
           (Engine [] (Raised (Exception ''boom'')))))
   \<and> run (sample_process Map.empty)
       (Hooked (Pytest_runtest_protocol marked_item)
          (Hooked (Pytest_runtest_call marked_item)
             (Engine [] (Raised (Exception ''boom'')))))
       (fresh_world\<lparr>current := default_hub_of Map.empty, marks := (\<lambda>a. [VNone])\<rparr>)
     = (Raised (Exception ''boom''),
        fresh_world\<lparr>current := default_hub_of Map.empty, marks := (\<lambda>a. [VNone])\<rparr>)"
proof -
  have d: "plugin_disabled (sample_process Map.empty) (\<lambda>a. [VNone])
     (Hooked (Pytest_runtest_protocol marked_item)
        (Hooked (Pytest_runtest_call marked_item)
           (Engine [] (Raised (Exception ''boom'')))))"
    by (simp add: marked_item_def resolve_hub_marker_value_def resolve_value_def
        get_integration_no_client)
  show ?thesis
    using d disabled_hooks_pass_through
      [of "sample_process Map.empty"
          "fresh_world\<lparr>current := default_hub_of Map.empty, marks := (\<lambda>a. [VNone])\<rparr>"
          "Hooked (Pytest_runtest_protocol marked_item)
            (Hooked (Pytest_runtest_call marked_item)
               (Engine [] (Raised (Exception ''boom''))))"]
    by simp
qed

text \<open>
  The claim as stated fails: the current context has no integration, yet the call hook
  of an item without marker enters the default context and starts and finishes a
  transaction on it, where the phase alone makes no call.
\<close>

theorem current_context_gate_counterexample:
  "get_integration (current fresh_world) = None
   \<and> calls (snd (run (sample_process Map.empty)
                   (Hooked (Pytest_runtest_call plain_item) (Engine [] (Returned NoResult)))
                   fresh_world))
     = [(default_hub_of Map.empty,
          Start_transaction ''pytest.runtest.call'' ''pytest.runtest.call test_a.py::test_x''),
        (default_hub_of Map.empty, Finish_transaction)]
   \<and> calls (snd (run (sample_process Map.empty) (Engine [] (Returned NoResult)) fresh_world)) = []"
proof -
  have name: "runtest_call_name (nodeid plain_item) = ''test_a.py::test_x''"
    by (simp add: runtest_call_name_def plain_item_def endswith_def)
  show ?thesis
    by (simp add: with_hub_next_def with_hub_send_def plain_item_resolves
        sample_process_fields get_integration_default_hub_of name fresh_world_fields
        format_op_name_def get_integration_no_client Let_def)
qed

section \<open>The outcome hook and the exception chain\<close>

text \<open>The part of the outcome hook after the yield, given a report and the integration.\<close>

lemma makereport_send_report:
  assumes g: "get_integration (current w) = Some g"
  shows "fst (makereport_send i c (Returned (TestReport oc)) w) = None"
    and "calls (snd (makereport_send i c (Returned (TestReport oc)) w))
          = calls w @ map (Pair (current w))
              (Set_tag ''pytest.result'' oc
               # (if call_when c = ''call''
                     \<and> (call_excinfo c = None \<and> getattr_exc_chain w i \<noteq> [] \<or> always_report g)
                  then map (\<lambda>e. Capture_exception (exc_tuple e))
                         (getattr_exc_chain w i
                            @ (case call_excinfo c of None \<Rightarrow> [] | Some e \<Rightarrow> [e]))
                  else []))"
    and "pytest_sentry_exc_chain (snd (makereport_send i c (Returned (TestReport oc)) w))
          = (case call_excinfo c of
               None \<Rightarrow> pytest_sentry_exc_chain w
             | Some e \<Rightarrow>
                 if call_when c = ''call''
                 then (pytest_sentry_exc_chain w)(nodeid i \<mapsto> getattr_exc_chain w i @ [e])
                 else pytest_sentry_exc_chain w)"
  using g
  by (auto simp add: makereport_send_def Let_def getattr_exc_chain_def split: option.splits)

text \<open>A wrapped hook whose item resolves to a context with the integration.\<close>

lemma run_hooked_enabled:
  assumes r: "fst (resolve_hub_marker_value pr (get_closest_marker w (itemgetter hc))) = Inr h"
    and g: "get_integration h = Some g"
  shows "run pr (Hooked hc p) w
    = (case wrapped_next hc
              (hub_enter h
                 (marker_after (itemgetter hc)
                    (snd (resolve_hub_marker_value pr (get_closest_marker w (itemgetter hc)))) w)) of
         (Some e, w3) \<Rightarrow> (Raised e, hub_exit w3)
       | (None, w3) \<Rightarrow>
           (case run pr p w3 of
              (oc, w4) \<Rightarrow>
                (case wrapped_send hc oc w4 of
                   (None, w5) \<Rightarrow> (oc, hub_exit w5)
                 | (Some e, w5) \<Rightarrow> (Raised e, hub_exit w5))))"
  using r g
  by (cases "resolve_hub_marker_value pr (get_closest_marker w (itemgetter hc))")
    (simp add: with_hub_next_def with_hub_send_def Let_def hub_exit_enter
      split: prod.splits option.splits)

text \<open>The mark of the item after the resolver has run on it.\<close>

lemma resolve_None_iff:
  "(snd (resolve_hub_marker_value pr m) = None) = (m = None)"
  by (cases m) (auto simp add: resolve_hub_marker_value_def split: list.splits prod.splits)

lemma closest_after:
  "get_closest_marker
     (marker_after i (snd (resolve_hub_marker_value pr (get_closest_marker w i))) w) i
   = snd (resolve_hub_marker_value pr (get_closest_marker w i))"
proof (cases "sentry_client i")
  case None
  then show ?thesis
    by (simp add: get_closest_marker_def marker_after_def resolve_hub_marker_value_def)
next
  case (Some a)
  then obtain args where "snd (resolve_hub_marker_value pr (get_closest_marker w i)) = Some args"
    using resolve_None_iff [of pr "get_closest_marker w i"]
    by (auto simp add: get_closest_marker_def)
  then show ?thesis
    using Some by (simp add: get_closest_marker_def marker_after_def)
qed

lemma get_closest_marker_marks:
  "marks w' = marks w \<Longrightarrow> get_closest_marker w' i = get_closest_marker w i"
  by (simp add: get_closest_marker_def)

text \<open>
  One firing of the outcome hook: the outcome, the calls into the SDK and the chain of the
  item afterwards; and the item still resolves to a context with the same toggle.
\<close>

lemma makereport_firing:
  assumes r: "fst (resolve_hub_marker_value pr (get_closest_marker w i)) = Inr h"
    and g: "get_integration h = Some g"
  shows "fst (run pr (report_firing i c cs oc) w) = Returned (TestReport oc)"
    and "calls (snd (run pr (report_firing i c cs oc) w))
          = calls w @ map (Pair h)
              ([Set_tag ''pytest.result'' ''pending''] @ cs @ [Set_tag ''pytest.result'' oc]
               @ (if call_when c = ''call''
                     \<and> (call_excinfo c = None \<and> getattr_exc_chain w i \<noteq> [] \<or> always_report g)
                  then map (\<lambda>e. Capture_exception (exc_tuple e))
                         (getattr_exc_chain w i
                            @ (case call_excinfo c of None \<Rightarrow> [] | Some e \<Rightarrow> [e]))
                  else []))"
    and "pytest_sentry_exc_chain (snd (run pr (report_firing i c cs oc) w))
          = (case call_excinfo c of
               None \<Rightarrow> pytest_sentry_exc_chain w
             | Some e \<Rightarrow>
                 if call_when c = ''call''
                 then (pytest_sentry_exc_chain w)(nodeid i \<mapsto> getattr_exc_chain w i @ [e])
                 else pytest_sentry_exc_chain w)"
    and "\<exists>h'. fst (resolve_hub_marker_value pr
                    (get_closest_marker (snd (run pr (report_firing i c cs oc) w)) i)) = Inr h'
              \<and> get_integration h' = Some g"
proof -
  let ?hc = "Pytest_runtest_makereport i c"
  let ?p = "Engine cs (Returned (TestReport oc))"
  let ?m = "snd (resolve_hub_marker_value pr (get_closest_marker w i))"
  let ?w0 = "marker_after i ?m w"
  let ?w3 = "foldl (\<lambda>w' c. sdk c w') (sdk (Set_tag ''pytest.result'' ''pending'') (hub_enter h ?w0)) cs"
  have cur: "current ?w3 = h" by simp
  have gi: "get_integration (current ?w3) = Some g" using g cur by simp
  have ch: "getattr_exc_chain ?w3 i = getattr_exc_chain w i"
    by (simp add: getattr_exc_chain_def)
  have cl: "calls ?w3 = calls w @ map (Pair h) ([Set_tag ''pytest.result'' ''pending''] @ cs)"
    by simp
  have pc: "pytest_sentry_exc_chain ?w3 = pytest_sentry_exc_chain w"
    by simp
  have mk: "marks ?w3 = marks ?w0"
    by simp
  note ms = makereport_send_report [OF gi, of i c oc]
  have step: "run pr (Hooked ?hc ?p) w
      = (case wrapped_next ?hc (hub_enter h ?w0) of
           (Some e, w3) \<Rightarrow> (Raised e, hub_exit w3)
         | (None, w3) \<Rightarrow>
             (case run pr ?p w3 of
                (oc, w4) \<Rightarrow>
                  (case wrapped_send ?hc oc w4 of
                     (None, w5) \<Rightarrow> (oc, hub_exit w5)
                   | (Some e, w5) \<Rightarrow> (Raised e, hub_exit w5))))"
    using run_hooked_enabled [where hc = ?hc and g = g and h = h and pr = pr and w = w and p = ?p]
      r g
    by simp
  have run_eq: "run pr (report_firing i c cs oc) w
      = (Returned (TestReport oc),
         hub_exit (snd (makereport_send i c (Returned (TestReport oc)) ?w3)))"
    unfolding report_firing_def
    using ms(1) by (auto simp add: step split: prod.splits simp del: run.simps(3))
  show "fst (run pr (report_firing i c cs oc) w) = Returned (TestReport oc)"
    unfolding run_eq by simp
  show "calls (snd (run pr (report_firing i c cs oc) w))
          = calls w @ map (Pair h)
              ([Set_tag ''pytest.result'' ''pending''] @ cs @ [Set_tag ''pytest.result'' oc]
               @ (if call_when c = ''call''
                     \<and> (call_excinfo c = None \<and> getattr_exc_chain w i \<noteq> [] \<or> always_report g)
                  then map (\<lambda>e. Capture_exception (exc_tuple e))
                         (getattr_exc_chain w i
                            @ (case call_excinfo c of None \<Rightarrow> [] | Some e \<Rightarrow> [e]))
                  else []))"
    unfolding run_eq by (auto simp add: ms(2) ch cl cur split: option.splits)
  show "pytest_sentry_exc_chain (snd (run pr (report_firing i c cs oc) w))
          = (case call_excinfo c of
               None \<Rightarrow> pytest_sentry_exc_chain w
             | Some e \<Rightarrow>
                 if call_when c = ''call''
                 then (pytest_sentry_exc_chain w)(nodeid i \<mapsto> getattr_exc_chain w i @ [e])
                 else pytest_sentry_exc_chain w)"
    unfolding run_eq by (auto simp add: ms(3) ch pc split: option.splits)
  have "marks (snd (run pr (report_firing i c cs oc) w)) = marks ?w0"
    unfolding run_eq using makereport_send_hubs [of i c "Returned (TestReport oc)" ?w3] mk
    by simp
  then have "get_closest_marker (snd (run pr (report_firing i c cs oc) w)) i = ?m"
    using closest_after [of i pr w] by (simp add: get_closest_marker_def)
  then show "\<exists>h'. fst (resolve_hub_marker_value pr
                    (get_closest_marker (snd (run pr (report_firing i c cs oc) w)) i)) = Inr h'
              \<and> get_integration h' = Some g"
    using resolve_toggle_stable [OF r g] by simp
qed

text \<open>The same, for the calls without the contexts they were made on.\<close>

lemma makereport_firing_sdk_calls:
  assumes r: "fst (resolve_hub_marker_value pr (get_closest_marker w i)) = Inr h"
    and g: "get_integration h = Some g"
  shows "sdk_calls (snd (run pr (report_firing i c cs oc) w))
          = sdk_calls w
              @ [Set_tag ''pytest.result'' ''pending''] @ cs @ [Set_tag ''pytest.result'' oc]
              @ (if call_when c = ''call''
                    \<and> (call_excinfo c = None \<and> getattr_exc_chain w i \<noteq> [] \<or> always_report g)
                 then map (\<lambda>e. Capture_exception (exc_tuple e))
                        (getattr_exc_chain w i
                           @ (case call_excinfo c of None \<Rightarrow> [] | Some e \<Rightarrow> [e]))
                 else [])"
proof -
  have "map snd (map (Pair h) xs) = xs" for xs :: "sdk_call list"
    by (induction xs) simp_all
  then show ?thesis
    unfolding sdk_calls_def makereport_firing(2) [OF r g] map_append by simp
qed

lemma run_Seq_returned:
  "fst (run pr p w) = Returned r \<Longrightarrow> run pr (Seq p q) w = run pr q (snd (run pr p w))"
  by (cases "run pr p w") simp

lemma fresh_world_no_chain: "getattr_exc_chain fresh_world i = []"
  by (simp add: getattr_exc_chain_def fresh_world_fields)

lemma plain_item_enabled:
  "fst (resolve_hub_marker_value (sample_process environ) (get_closest_marker w plain_item))
     = Inr (default_hub_of environ)"
  "get_integration (default_hub_of environ) = Some (PytestIntegration_init environ None)"
  by (simp_all add: plain_item_resolves sample_process_fields get_integration_default_hub_of)

lemma always_report_toggle:
  "PytestIntegration_init [''PYTEST_SENTRY_ALWAYS_REPORT'' \<mapsto> ''1''] None = PytestIntegration True"
  by (simp add: PytestIntegration_init_def lower_def lower_char_def)

text \<open>
  The three firings of the outcome hook for a test that is run once: for a phase before
  \<open>call\<close>, for \<open>call\<close> with the failure \<open>e\<close>, and for a phase after it.
\<close>

lemma single_run_firings:
  assumes r: "fst (resolve_hub_marker_value pr (get_closest_marker w i)) = Inr h"
    and g: "get_integration h = Some g"
    and fresh: "pytest_sentry_exc_chain w (nodeid i) = None"
    and s: "call_when s \<noteq> ''call''"
    and t: "call_when t \<noteq> ''call''"
  shows "pytest_sentry_exc_chain
           (snd (run pr
                  (Seq (report_firing i s cs1 oc1)
                     (Seq (report_firing i \<lparr>call_when = ''call'', call_excinfo = Some e\<rparr> cs2 oc2)
                        (report_firing i t cs3 oc3))) w))
           (nodeid i) = Some [e]"
    and "sdk_calls (snd (run pr
                  (Seq (report_firing i s cs1 oc1)
                     (Seq (report_firing i \<lparr>call_when = ''call'', call_excinfo = Some e\<rparr> cs2 oc2)
                        (report_firing i t cs3 oc3))) w))
         = sdk_calls w
             @ [Set_tag ''pytest.result'' ''pending''] @ cs1 @ [Set_tag ''pytest.result'' oc1]
             @ [Set_tag ''pytest.result'' ''pending''] @ cs2 @ [Set_tag ''pytest.result'' oc2]
             @ (if always_report g then [Capture_exception (exc_tuple e)] else [])
             @ [Set_tag ''pytest.result'' ''pending''] @ cs3 @ [Set_tag ''pytest.result'' oc3]"
proof -
  let ?c = "\<lparr>call_when = ''call'', call_excinfo = Some e\<rparr>"
  let ?p1 = "report_firing i s cs1 oc1"
  let ?p2 = "report_firing i ?c cs2 oc2"
  let ?p3 = "report_firing i t cs3 oc3"
  let ?w1 = "snd (run pr ?p1 w)"
  let ?w2 = "snd (run pr ?p2 ?w1)"
  note f1 = makereport_firing [OF r g, of s cs1 oc1]
  note c1 = makereport_firing_sdk_calls [OF r g, of s cs1 oc1]
  obtain h1 where r1: "fst (resolve_hub_marker_value pr (get_closest_marker ?w1 i)) = Inr h1"
    and g1: "get_integration h1 = Some g"
    using f1(4) by blast
  note f2 = makereport_firing [OF r1 g1, of ?c cs2 oc2]
  note c2 = makereport_firing_sdk_calls [OF r1 g1, of ?c cs2 oc2]
  obtain h2 where r2: "fst (resolve_hub_marker_value pr (get_closest_marker ?w2 i)) = Inr h2"
    and g2: "get_integration h2 = Some g"
    using f2(4) by blast
  note f3 = makereport_firing [OF r2 g2, of t cs3 oc3]
  note c3 = makereport_firing_sdk_calls [OF r2 g2, of t cs3 oc3]
  have chain1: "pytest_sentry_exc_chain ?w1 = pytest_sentry_exc_chain w"
    using f1(3) s by (simp split: option.splits)
  have empty: "getattr_exc_chain ?w1 i = []"
    using fresh chain1 by (simp add: getattr_exc_chain_def)
  have calls1: "sdk_calls ?w1
      = sdk_calls w @ [Set_tag ''pytest.result'' ''pending''] @ cs1 @ [Set_tag ''pytest.result'' oc1]"
    using c1 s by simp
  have seq23: "run pr (Seq ?p2 ?p3) ?w1 = run pr ?p3 ?w2"
    using f2(1) by (rule run_Seq_returned)
  have seq: "run pr (Seq ?p1 (Seq ?p2 ?p3)) w = run pr ?p3 ?w2"
    using run_Seq_returned [OF f1(1), of "Seq ?p2 ?p3"] seq23 by simp
  have chain2: "pytest_sentry_exc_chain ?w2 (nodeid i) = Some [e]"
    using f2(3) by (simp add: empty)
  have calls2: "sdk_calls ?w2 = sdk_calls w
      @ [Set_tag ''pytest.result'' ''pending''] @ cs1 @ [Set_tag ''pytest.result'' oc1]
      @ [Set_tag ''pytest.result'' ''pending''] @ cs2 @ [Set_tag ''pytest.result'' oc2]
      @ (if always_report g then [Capture_exception (exc_tuple e)] else [])"
    using c2 by (simp add: empty calls1)
  have chain3: "pytest_sentry_exc_chain (snd (run pr ?p3 ?w2)) = pytest_sentry_exc_chain ?w2"
    using f3(3) t by (simp split: option.splits)
  show "pytest_sentry_exc_chain (snd (run pr (Seq ?p1 (Seq ?p2 ?p3)) w)) (nodeid i) = Some [e]"
    unfolding seq using chain3 chain2 by simp
  show "sdk_calls (snd (run pr (Seq ?p1 (Seq ?p2 ?p3)) w))
         = sdk_calls w
             @ [Set_tag ''pytest.result'' ''pending''] @ cs1 @ [Set_tag ''pytest.result'' oc1]
             @ [Set_tag ''pytest.result'' ''pending''] @ cs2 @ [Set_tag ''pytest.result'' oc2]
             @ (if always_report g then [Capture_exception (exc_tuple e)] else [])
             @ [Set_tag ''pytest.result'' ''pending''] @ cs3 @ [Set_tag ''pytest.result'' oc3]"
    unfolding seq using c3 t by (simp add: calls2)
qed

text \<open>
  C3, as the code has it. An item whose mark resolves to a context with the integration,
  and whose chain is not yet set, is run once: the outcome hook fires for a phase before
  \<open>call\<close>, for \<open>call\<close> with a raised failure, and for a phase after it. Afterwards the
  chain holds exactly that failure. The hook submits it once, at the firing for \<open>call\<close>,
  when \<open>always_report\<close> is set; under the default policy it makes no submission: its calls
  are the tags around the calls of the engine.
\<close>

theorem single_call_failure_recorded_once:
  assumes "fst (resolve_hub_marker_value pr (get_closest_marker w i)) = Inr h"
    and "get_integration h = Some g"
    and "pytest_sentry_exc_chain w (nodeid i) = None"
    and "call_when s \<noteq> ''call''"
    and "call_when t \<noteq> ''call''"
  shows "pytest_sentry_exc_chain
           (snd (run pr
                  (Seq (report_firing i s cs1 oc1)
                     (Seq (report_firing i \<lparr>call_when = ''call'', call_excinfo = Some e\<rparr> cs2 oc2)
                        (report_firing i t cs3 oc3))) w))
           (nodeid i) = Some [e]
       \<and> sdk_calls (snd (run pr
                  (Seq (report_firing i s cs1 oc1)
                     (Seq (report_firing i \<lparr>call_when = ''call'', call_excinfo = Some e\<rparr> cs2 oc2)
                        (report_firing i t cs3 oc3))) w))
         = sdk_calls w
             @ [Set_tag ''pytest.result'' ''pending''] @ cs1 @ [Set_tag ''pytest.result'' oc1]
             @ [Set_tag ''pytest.result'' ''pending''] @ cs2 @ [Set_tag ''pytest.result'' oc2]
             @ (if always_report g then [Capture_exception (exc_tuple e)] else [])
             @ [Set_tag ''pytest.result'' ''pending''] @ cs3 @ [Set_tag ''pytest.result'' oc3]"
  using single_run_firings [OF assms] by simp

theorem single_call_failure_recorded_once_witness:
  "pytest_sentry_exc_chain
     (snd (run (sample_process [''PYTEST_SENTRY_ALWAYS_REPORT'' \<mapsto> ''1''])
            (Seq (report_firing plain_item \<lparr>call_when = ''setup'', call_excinfo = None\<rparr> [] ''passed'')
               (Seq (report_firing plain_item \<lparr>call_when = ''call'', call_excinfo = Some failure\<rparr> [] ''failed'')
                  (report_firing plain_item \<lparr>call_when = ''teardown'', call_excinfo = None\<rparr> [] ''passed'')))
            fresh_world))
     (nodeid plain_item) = Some [failure]
   \<and> sdk_calls (snd (run (sample_process [''PYTEST_SENTRY_ALWAYS_REPORT'' \<mapsto> ''1''])
            (Seq (report_firing plain_item \<lparr>call_when = ''setup'', call_excinfo = None\<rparr> [] ''passed'')
               (Seq (report_firing plain_item \<lparr>call_when = ''call'', call_excinfo = Some failure\<rparr> [] ''failed'')
                  (report_firing plain_item \<lparr>call_when = ''teardown'', call_excinfo = None\<rparr> [] ''passed'')))
            fresh_world))
     = [Set_tag ''pytest.result'' ''pending'', Set_tag ''pytest.result'' ''passed'',
        Set_tag ''pytest.result'' ''pending'', Set_tag ''pytest.result'' ''failed'',
        Capture_exception (exc_tuple failure),
        Set_tag ''pytest.result'' ''pending'', Set_tag ''pytest.result'' ''passed'']"
proof -
  have fresh: "pytest_sentry_exc_chain fresh_world (nodeid plain_item) = None"
    by (simp add: fresh_world_fields)
  have s: "call_when \<lparr>call_when = ''setup'', call_excinfo = None\<rparr> \<noteq> ''call''"
    by simp
  have t: "call_when \<lparr>call_when = ''teardown'', call_excinfo = None\<rparr> \<noteq> ''call''"
    by simp
  show ?thesis
    using single_call_failure_recorded_once
      [of "sample_process [''PYTEST_SENTRY_ALWAYS_REPORT'' \<mapsto> ''1'']" fresh_world plain_item
          _ _ "\<lparr>call_when = ''setup'', call_excinfo = None\<rparr>"
          "\<lparr>call_when = ''teardown'', call_excinfo = None\<rparr>"
          "[]" "''passed''" failure "[]" "''failed''" "[]" "''passed''",
       OF plain_item_enabled fresh s t]
    by (simp add: always_report_toggle sdk_calls_def fresh_world_fields del: run.simps)
qed

text \<open>
  The claim as stated fails: with no marker and the environment variable not set, the
  firings for a test that fails once in \<open>call\<close> record the failure and submit nothing.
\<close>

theorem default_policy_no_submission_counterexample:
  "always_report (PytestIntegration_init Map.empty None) = False
   \<and> pytest_sentry_exc_chain
       (snd (run (sample_process Map.empty)
            (Seq (report_firing plain_item \<lparr>call_when = ''setup'', call_excinfo = None\<rparr> [] ''passed'')
               (Seq (report_firing plain_item \<lparr>call_when = ''call'', call_excinfo = Some failure\<rparr> [] ''failed'')
                  (report_firing plain_item \<lparr>call_when = ''teardown'', call_excinfo = None\<rparr> [] ''passed'')))
            fresh_world))
       (nodeid plain_item) = Some [failure]
   \<and> sdk_calls (snd (run (sample_process Map.empty)
            (Seq (report_firing plain_item \<lparr>call_when = ''setup'', call_excinfo = None\<rparr> [] ''passed'')
               (Seq (report_firing plain_item \<lparr>call_when = ''call'', call_excinfo = Some failure\<rparr> [] ''failed'')
                  (report_firing plain_item \<lparr>call_when = ''teardown'', call_excinfo = None\<rparr> [] ''passed'')))
            fresh_world))
     = [Set_tag ''pytest.result'' ''pending'', Set_tag ''pytest.result'' ''passed'',
        Set_tag ''pytest.result'' ''pending'', Set_tag ''pytest.result'' ''failed'',
        Set_tag ''pytest.result'' ''pending'', Set_tag ''pytest.result'' ''passed'']"
proof -
  have fresh: "pytest_sentry_exc_chain fresh_world (nodeid plain_item) = None"
    by (simp add: fresh_world_fields)
  have s: "call_when \<lparr>call_when = ''setup'', call_excinfo = None\<rparr> \<noteq> ''call''"
    by simp
  have t: "call_when \<lparr>call_when = ''teardown'', call_excinfo = None\<rparr> \<noteq> ''call''"
    by simp
  show ?thesis
    using single_run_firings
      [of "sample_process Map.empty" fresh_world plain_item
          _ _ "\<lparr>call_when = ''setup'', call_excinfo = None\<rparr>"
          "\<lparr>call_when = ''teardown'', call_excinfo = None\<rparr>"
          "[]" "''passed''" failure "[]" "''failed''" "[]" "''passed''",
       OF plain_item_enabled fresh s t]
    by (simp add: default_toggle sdk_calls_def fresh_world_fields del: run.simps)
qed

text \<open>
  C4, as the code has it. For an item whose mark resolves to a context with the
  integration, the outcome hook fires for the phase \<open>call\<close> with a failure and then again,
  for the same item, without one. The failure stays in the chain and is submitted at the
  second firing. Under the default policy this is its only submission; with
  \<open>always_report\<close> set it is also submitted at the first firing, twice in all.
\<close>

theorem retry_failure_kept_and_submitted:
  assumes "fst (resolve_hub_marker_value pr (get_closest_marker w i)) = Inr h"
    and "get_integration h = Some g"
    and "pytest_sentry_exc_chain w (nodeid i) = None"
  shows "pytest_sentry_exc_chain
           (snd (run pr
                  (Seq (report_firing i \<lparr>call_when = ''call'', call_excinfo = Some e\<rparr> cs1 oc1)
                       (report_firing i \<lparr>call_when = ''call'', call_excinfo = None\<rparr> cs2 oc2)) w))
           (nodeid i) = Some [e]
       \<and> sdk_calls (snd (run pr
                  (Seq (report_firing i \<lparr>call_when = ''call'', call_excinfo = Some e\<rparr> cs1 oc1)
                       (report_firing i \<lparr>call_when = ''call'', call_excinfo = None\<rparr> cs2 oc2)) w))
         = sdk_calls w
             @ [Set_tag ''pytest.result'' ''pending''] @ cs1 @ [Set_tag ''pytest.result'' oc1]
             @ (if always_report g then [Capture_exception (exc_tuple e)] else [])
             @ [Set_tag ''pytest.result'' ''pending''] @ cs2 @ [Set_tag ''pytest.result'' oc2]
             @ [Capture_exception (exc_tuple e)]"
proof -
  let ?c1 = "\<lparr>call_when = ''call'', call_excinfo = Some e\<rparr>"
  let ?c2 = "\<lparr>call_when = ''call'', call_excinfo = None\<rparr>"
  let ?p1 = "report_firing i ?c1 cs1 oc1"
  let ?p2 = "report_firing i ?c2 cs2 oc2"
  let ?w1 = "snd (run pr ?p1 w)"
  note f1 = makereport_firing [OF assms(1,2), of ?c1 cs1 oc1]
  note c1 = makereport_firing_sdk_calls [OF assms(1,2), of ?c1 cs1 oc1]
  obtain h1 where r1: "fst (resolve_hub_marker_value pr (get_closest_marker ?w1 i)) = Inr h1"
    and g1: "get_integration h1 = Some g"
    using f1(4) by blast
  note f2 = makereport_firing [OF r1 g1, of ?c2 cs2 oc2]
  note c2 = makereport_firing_sdk_calls [OF r1 g1, of ?c2 cs2 oc2]
  have empty: "getattr_exc_chain w i = []"
    using assms(3) by (simp add: getattr_exc_chain_def)
  have chain1: "pytest_sentry_exc_chain ?w1 (nodeid i) = Some [e]"
    using f1(3) by (simp add: empty)
  then have kept: "getattr_exc_chain ?w1 i = [e]"
    by (simp add: getattr_exc_chain_def)
  have calls1: "sdk_calls ?w1 = sdk_calls w
      @ [Set_tag ''pytest.result'' ''pending''] @ cs1 @ [Set_tag ''pytest.result'' oc1]
      @ (if always_report g then [Capture_exception (exc_tuple e)] else [])"
    using c1 by (simp add: empty)
  have seq: "run pr (Seq ?p1 ?p2) w = run pr ?p2 ?w1"
    using f1(1) by (rule run_Seq_returned)
  have "pytest_sentry_exc_chain (snd (run pr ?p2 ?w1)) (nodeid i) = Some [e]"
    using f2(3) chain1 by simp
  moreover have "sdk_calls (snd (run pr ?p2 ?w1)) = sdk_calls w
      @ [Set_tag ''pytest.result'' ''pending''] @ cs1 @ [Set_tag ''pytest.result'' oc1]
      @ (if always_report g then [Capture_exception (exc_tuple e)] else [])
      @ [Set_tag ''pytest.result'' ''pending''] @ cs2 @ [Set_tag ''pytest.result'' oc2]
      @ [Capture_exception (exc_tuple e)]"
    using c2 by (simp add: kept calls1)
  ultimately show ?thesis
    unfolding seq by simp
qed

theorem retry_failure_kept_and_submitted_witness:
  "pytest_sentry_exc_chain
     (snd (run (sample_process Map.empty)
            (Seq (report_firing plain_item \<lparr>call_when = ''call'', call_excinfo = Some failure\<rparr> [] ''failed'')
                 (report_firing plain_item \<lparr>call_when = ''call'', call_excinfo = None\<rparr> [] ''passed'')) fresh_world))
     (nodeid plain_item) = Some [failure]
   \<and> sdk_calls (snd (run (sample_process Map.empty)
            (Seq (report_firing plain_item \<lparr>call_when = ''call'', call_excinfo = Some failure\<rparr> [] ''failed'')
                 (report_firing plain_item \<lparr>call_when = ''call'', call_excinfo = None\<rparr> [] ''passed'')) fresh_world))
     = [Set_tag ''pytest.result'' ''pending'', Set_tag ''pytest.result'' ''failed'',
        Set_tag ''pytest.result'' ''pending'', Set_tag ''pytest.result'' ''passed'',
        Capture_exception (exc_tuple failure)]"
proof -
  have fresh: "pytest_sentry_exc_chain fresh_world (nodeid plain_item) = None"
    by (simp add: fresh_world_fields)
  show ?thesis
    using retry_failure_kept_and_submitted
      [of "sample_process Map.empty" fresh_world plain_item _ _ failure
          "[]" "''failed''" "[]" "''passed''",
       OF plain_item_enabled fresh]
    by (simp add: default_toggle sdk_calls_def fresh_world_fields del: run.simps)
qed

text \<open>
  The claim as stated fails: with the environment variable set to \<open>1\<close> the same failure is
  submitted at the failing firing and again at the passing one.
\<close>

theorem always_report_submits_twice_counterexample:
  "sdk_calls (snd (run (sample_process [''PYTEST_SENTRY_ALWAYS_REPORT'' \<mapsto> ''1''])
            (Seq (report_firing plain_item \<lparr>call_when = ''call'', call_excinfo = Some failure\<rparr> [] ''failed'')
                 (report_firing plain_item \<lparr>call_when = ''call'', call_excinfo = None\<rparr> [] ''passed'')) fresh_world))
     = [Set_tag ''pytest.result'' ''pending'', Set_tag ''pytest.result'' ''failed'',
        Capture_exception (exc_tuple failure),
        Set_tag ''pytest.result'' ''pending'', Set_tag ''pytest.result'' ''passed'',
        Capture_exception (exc_tuple failure)]"
proof -
  let ?pr = "sample_process [''PYTEST_SENTRY_ALWAYS_REPORT'' \<mapsto> ''1'']"
  let ?c1 = "\<lparr>call_when = ''call'', call_excinfo = Some failure\<rparr>"
  let ?c2 = "\<lparr>call_when = ''call'', call_excinfo = None\<rparr>"
  let ?p1 = "report_firing plain_item ?c1 [] ''failed''"
  let ?p2 = "report_firing plain_item ?c2 [] ''passed''"
  let ?w1 = "snd (run ?pr ?p1 fresh_world)"
  note f1 = makereport_firing
    [where pr = ?pr and w = fresh_world and i = plain_item and c = ?c1 and cs = "[]"
       and oc = "''failed''", OF plain_item_enabled]
  note c1 = makereport_firing_sdk_calls
    [where pr = ?pr and w = fresh_world and i = plain_item and c = ?c1 and cs = "[]"
       and oc = "''failed''", OF plain_item_enabled]
  note c2 = makereport_firing_sdk_calls
    [where pr = ?pr and w = ?w1 and i = plain_item and c = ?c2 and cs = "[]"
       and oc = "''passed''", OF plain_item_enabled]
  have empty: "getattr_exc_chain fresh_world plain_item = []"
    by (rule fresh_world_no_chain)
  have "pytest_sentry_exc_chain ?w1 (nodeid plain_item) = Some [failure]"
    using f1(3) by (simp add: empty)
  then have kept: "getattr_exc_chain ?w1 plain_item = [failure]"
    by (simp add: getattr_exc_chain_def)
  have calls1: "sdk_calls ?w1
      = [Set_tag ''pytest.result'' ''pending'', Set_tag ''pytest.result'' ''failed'',
         Capture_exception (exc_tuple failure)]"
    using c1 by (simp add: empty always_report_toggle sdk_calls_def fresh_world_fields)
  have seq: "run ?pr (Seq ?p1 ?p2) fresh_world = run ?pr ?p2 ?w1"
    using f1(1) by (rule run_Seq_returned)
  show ?thesis
    unfolding seq using c2 by (simp add: kept calls1)
qed

text \<open>
  C8, as the code has it. For an item with the integration, a firing of the outcome hook
  for the phase \<open>call\<close> with a raised failure appends exactly that failure to the chain of
  the item; a firing for any other phase, and a firing without failure, leaves the chain
  as it is.
\<close>

theorem exc_chain_grows_in_call_phase_only:
  assumes "fst (resolve_hub_marker_value pr (get_closest_marker w i)) = Inr h"
    and "get_integration h = Some g"
  shows "pytest_sentry_exc_chain
           (snd (run pr
                  (report_firing i c cs oc) w))
           (nodeid i)
         = (if call_when c = ''call'' then
              (case call_excinfo c of
                 None \<Rightarrow> pytest_sentry_exc_chain w (nodeid i)
               | Some e \<Rightarrow> Some (getattr_exc_chain w i @ [e]))
            else pytest_sentry_exc_chain w (nodeid i))"
  using makereport_firing(3) [OF assms, of c cs oc]
  by (simp split: option.splits)

theorem exc_chain_grows_in_call_phase_only_witness:
  "pytest_sentry_exc_chain
     (snd (run (sample_process Map.empty)
            (report_firing plain_item \<lparr>call_when = ''call'', call_excinfo = Some failure\<rparr> [] ''failed'')
            (fresh_world\<lparr>pytest_sentry_exc_chain := [nodeid plain_item \<mapsto> [failure]]\<rparr>)))
     (nodeid plain_item) = Some [failure, failure]
   \<and> pytest_sentry_exc_chain
     (snd (run (sample_process Map.empty)
            (report_firing plain_item \<lparr>call_when = ''teardown'', call_excinfo = Some failure\<rparr> [] ''failed'')
            (fresh_world\<lparr>pytest_sentry_exc_chain := [nodeid plain_item \<mapsto> [failure]]\<rparr>)))
     (nodeid plain_item) = Some [failure]"
  using exc_chain_grows_in_call_phase_only
      [where pr = "sample_process Map.empty" and i = plain_item
         and w = "fresh_world\<lparr>pytest_sentry_exc_chain := [nodeid plain_item \<mapsto> [failure]]\<rparr>"
         and c = "\<lparr>call_when = ''call'', call_excinfo = Some failure\<rparr>"
         and cs = "[]" and oc = "''failed''",
       OF plain_item_enabled]
    exc_chain_grows_in_call_phase_only
      [where pr = "sample_process Map.empty" and i = plain_item
         and w = "fresh_world\<lparr>pytest_sentry_exc_chain := [nodeid plain_item \<mapsto> [failure]]\<rparr>"
         and c = "\<lparr>call_when = ''teardown'', call_excinfo = Some failure\<rparr>"
         and cs = "[]" and oc = "''failed''",
       OF plain_item_enabled]
  by (simp add: getattr_exc_chain_def)

text \<open>
  The claim as stated fails: the firing for a phase \<open>setup\<close> that raised leaves the chain
  of the item unset.
\<close>

theorem setup_failure_not_recorded_counterexample:
  "pytest_sentry_exc_chain
     (snd (run (sample_process Map.empty)
            (report_firing plain_item \<lparr>call_when = ''setup'', call_excinfo = Some failure\<rparr> [] ''failed'') fresh_world))
     (nodeid plain_item) = None"
  using makereport_firing(3)
    [where pr = "sample_process Map.empty" and w = fresh_world and i = plain_item
       and c = "\<lparr>call_when = ''setup'', call_excinfo = Some failure\<rparr>" and cs = "[]"
       and oc = "''failed''",
     OF plain_item_enabled]
  by (simp add: fresh_world_fields)

end
